theory Spec2Isabelle
  imports Complex_Main "HOL-Library.Multiset"
begin

section \<open>JavaScript values and exceptions\<close>

text \<open>
  The helpers of \<^verbatim>\<open>utils/helpers.ts\<close> are written defensively: they test their
  argument with \<^verbatim>\<open>!costs || !Array.isArray(costs)\<close> and wrap their body in
  \<^verbatim>\<open>try { ... } catch (error) { return <default> }\<close>. A field that TypeScript
  declares as an array can therefore hold anything at run time, and a method call on a
  value that has no such method throws a \<^verbatim>\<open>TypeError\<close>. Both are part of the model.

  Numbers are IEEE doubles in the source; they are modelled by \<^typ>\<open>real\<close>, so rounding
  and \<^verbatim>\<open>NaN\<close> are outside the model.
\<close>

datatype js_error = TypeError

type_synonym 'a js_result = "js_error + 'a"

text \<open>
  What an array-typed field holds at run time: \<^verbatim>\<open>undefined\<close>, \<^verbatim>\<open>null\<close>, some
  value that is not an array (a number, a string, a plain object; the flag is its
  truthiness) or an array.
\<close>

datatype 'a js_value = JsUndefined | JsNull | JsNonArray bool | JsArray "'a list"

fun truthy :: "'a js_value \<Rightarrow> bool" where
  "truthy JsUndefined = False"
| "truthy JsNull = False"
| "truthy (JsNonArray b) = b"
| "truthy (JsArray xs) = True"

fun isArray :: "'a js_value \<Rightarrow> bool" where
  "isArray (JsArray xs) = True"
| "isArray v = False"

text \<open>The elements of an array value; a value that is not an array has none.\<close>

fun entries :: "'a js_value \<Rightarrow> 'a list" where
  "entries (JsArray xs) = xs"
| "entries v = []"

text \<open>
  \<^verbatim>\<open>v.filter(p)\<close> and \<^verbatim>\<open>v.reduce(f, init)\<close>: on an array they are the list
  functions, on anything else the property is missing (or the receiver is nullish) and
  the call throws.
\<close>

definition js_filter :: "('a \<Rightarrow> bool) \<Rightarrow> 'a js_value \<Rightarrow> 'a list js_result" where
  "js_filter p v = (case v of JsArray xs \<Rightarrow> Inr (filter p xs) | _ \<Rightarrow> Inl TypeError)"

definition js_reduce :: "('b \<Rightarrow> 'a \<Rightarrow> 'b) \<Rightarrow> 'b \<Rightarrow> 'a js_value \<Rightarrow> 'b js_result" where
  "js_reduce f init v = (case v of JsArray xs \<Rightarrow> Inr (foldl f init xs) | _ \<Rightarrow> Inl TypeError)"

text \<open>Sequencing of two computations that may throw, and \<^verbatim>\<open>try/catch\<close>.\<close>

definition js_then :: "'a js_result \<Rightarrow> ('a \<Rightarrow> 'b js_result) \<Rightarrow> 'b js_result" where
  "js_then r k = (case r of Inl e \<Rightarrow> Inl e | Inr v \<Rightarrow> k v)"

definition try_catch :: "'a js_result \<Rightarrow> (js_error \<Rightarrow> 'a js_result) \<Rightarrow> 'a js_result" where
  "try_catch body handler = (case body of Inl e \<Rightarrow> handler e | Inr v \<Rightarrow> Inr v)"

text \<open>\<^verbatim>\<open>x || 0\<close> on an optional number: \<^verbatim>\<open>undefined\<close> and \<^verbatim>\<open>0\<close> are falsy.\<close>

definition or_zero :: "real option \<Rightarrow> real" where
  "or_zero x = (case x of None \<Rightarrow> 0 | Some r \<Rightarrow> if r = 0 then 0 else r)"

section \<open>Dates\<close>

text \<open>
  A \<^verbatim>\<open>Date\<close> is its time value: milliseconds since 1970-01-01T00:00, a Thursday.
  The calendar is the proleptic Gregorian one, as in ECMAScript; the local time zone is
  taken to be UTC, so that the local fields of a date are its UTC fields.
  \<open>days_from_civil\<close> and \<open>civil_from_days\<close> convert between a day number and a
  year, a month (1 to 12) and a day of the month, by counting in eras of 400 years that
  start on 1 March.
\<close>

definition msPerDay :: int where
  "msPerDay = 86400000"

definition Day :: "int \<Rightarrow> int" where
  "Day t = t div msPerDay"

definition TimeWithinDay :: "int \<Rightarrow> int" where
  "TimeWithinDay t = t mod msPerDay"

definition days_from_civil :: "int \<Rightarrow> int \<Rightarrow> int \<Rightarrow> int" where
  "days_from_civil y m d =
     (let y' = (if m \<le> 2 then y - 1 else y);
          era = y' div 400;
          yoe = y' - era * 400;
          doy = (153 * (if m > 2 then m - 3 else m + 9) + 2) div 5 + d - 1;
          doe = yoe * 365 + yoe div 4 - yoe div 100 + doy
      in era * 146097 + doe - 719468)"

definition civil_from_days :: "int \<Rightarrow> int \<times> int \<times> int" where
  "civil_from_days z =
     (let z' = z + 719468;
          era = z' div 146097;
          doe = z' - era * 146097;
          yoe = (doe - doe div 1460 + doe div 36524 - doe div 146096) div 365;
          doy = doe - (365 * yoe + yoe div 4 - yoe div 100);
          mp = (5 * doy + 2) div 153;
          d = doy - (153 * mp + 2) div 5 + 1;
          m = (if mp < 10 then mp + 3 else mp - 9);
          y = yoe + era * 400
      in (if m \<le> 2 then y + 1 else y, m, d))"

definition getFullYear :: "int \<Rightarrow> int" where
  "getFullYear t = fst (civil_from_days (Day t))"

text \<open>\<^verbatim>\<open>getMonth\<close> counts from 0, \<^verbatim>\<open>getDay\<close> is 0 on a Sunday and 6 on a Saturday.\<close>

definition getMonth :: "int \<Rightarrow> int" where
  "getMonth t = fst (snd (civil_from_days (Day t))) - 1"

definition getDay :: "int \<Rightarrow> int" where
  "getDay t = (Day t + 4) mod 7"

text \<open>\<^verbatim>\<open>new Date(y, m, d)\<close> is midnight of that day; the month counts from 0.\<close>

definition newDate :: "int \<Rightarrow> int \<Rightarrow> int \<Rightarrow> int" where
  "newDate y m d = days_from_civil y (m + 1) d * msPerDay"

text \<open>
  The day of the month is the distance from the first day of the month, plus one
  (ECMAScript's \<^verbatim>\<open>DateFromTime\<close>). \<^verbatim>\<open>setDate(dt)\<close> keeps the year, the month and
  the time of day and moves to day \<open>dt\<close> counted from the first of the month
  (\<^verbatim>\<open>MakeDay\<close>), so a value outside the month carries into the neighbouring months.
\<close>

definition monthStart :: "int \<Rightarrow> int" where
  "monthStart t = Day (newDate (getFullYear t) (getMonth t) 1)"

definition getDate :: "int \<Rightarrow> int" where
  "getDate t = Day t - monthStart t + 1"

definition setDate :: "int \<Rightarrow> int \<Rightarrow> int" where
  "setDate t dt = (monthStart t + dt - 1) * msPerDay + TimeWithinDay t"

text \<open>The helper \<^verbatim>\<open>getWeekNumber\<close> of \<^verbatim>\<open>YearToDateKPIs.tsx\<close>.\<close>

definition getWeekNumber :: "int \<Rightarrow> int" where
  "getWeekNumber date =
     (let firstDayOfYear = newDate (getFullYear date) 0 1;
          pastDaysOfYear = real_of_int (date - firstDayOfYear) / 86400000
      in \<lceil>(pastDaysOfYear + real_of_int (getDay firstDayOfYear) + 1) / 7\<rceil>)"

section \<open>Entity model\<close>

text \<open>
  Only the fields the helpers read are listed; a record's \<open>more\<close> part stands for the
  rest. Date strings are represented by the epoch milliseconds that
  \<^verbatim>\<open>new Date(s).getTime()\<close> yields for them, an optional string by an option whose
  \<open>None\<close> stands for \<^verbatim>\<open>undefined\<close> and for the empty string (both falsy).
  The \<open>amount\<close> of a cost entry is \<open>None\<close> when the stored value is not of type
  \<^verbatim>\<open>'number'\<close>.
\<close>

record additional_cost =
  amount :: real

record cost_entry =
  amount :: "real option"
  isFlagged :: bool
  investigationStatus :: "string option"
  flaggedAt :: "int option"
  date :: int

record flagged_cost = cost_entry +
  tripFleetNumber :: string
  tripRoute :: string
  tripDriverName :: string

record trip =
  fleetNumber :: string
  route :: string
  driverName :: string
  status :: string
  costs :: "cost_entry js_value"
  additionalCosts :: "additional_cost list option"
  baseRevenue :: "real option"
  distanceKm :: "real option"
  revenueCurrency :: "string option"
  endDate :: int
  finalOffloadDateTime :: "int option"
  actualOffloadDateTime :: "int option"

record kpis =
  totalRevenue :: real
  totalExpenses :: real
  netProfit :: real
  profitMargin :: real
  costPerKm :: real
  currency :: "string option"

section \<open>Flag and investigation helpers (utils/helpers.ts)\<close>

definition getFlaggedCostsCount :: "cost_entry js_value \<Rightarrow> nat js_result" where
  "getFlaggedCostsCount cs =
     (if \<not> truthy cs \<or> \<not> isArray cs then Inr 0
      else try_catch
        (js_then (js_filter (\<lambda>cost. isFlagged cost) cs) (\<lambda>fs. Inr (length fs)))
        (\<lambda>error. Inr 0))"

definition getUnresolvedFlagsCount :: "cost_entry js_value \<Rightarrow> nat js_result" where
  "getUnresolvedFlagsCount cs =
     (if \<not> truthy cs \<or> \<not> isArray cs then Inr 0
      else try_catch
        (js_then
          (js_filter (\<lambda>cost. isFlagged cost \<and> investigationStatus cost \<noteq> Some ''resolved'') cs)
          (\<lambda>fs. Inr (length fs)))
        (\<lambda>error. Inr 0))"

definition canCompleteTrip :: "trip \<Rightarrow> bool js_result" where
  "canCompleteTrip trip =
     try_catch
       (js_then (getUnresolvedFlagsCount (costs trip))
          (\<lambda>unresolvedFlags. Inr (unresolvedFlags = 0)))
       (\<lambda>error. Inr False)"

definition shouldAutoCompleteTrip :: "trip \<Rightarrow> bool js_result" where
  "shouldAutoCompleteTrip trip =
     try_catch
       (if status trip \<noteq> ''active'' then Inr False
        else js_then (js_filter (\<lambda>cost. isFlagged cost) (costs trip))
          (\<lambda>flaggedCosts.
             if length flaggedCosts = 0 then Inr False
             else js_then (getUnresolvedFlagsCount (costs trip))
               (\<lambda>unresolvedFlags. Inr (unresolvedFlags = 0))))
       (\<lambda>error. Inr False)"

text \<open>An entry that blocks completion: flagged, and its investigation not resolved.\<close>

definition unresolved :: "cost_entry \<Rightarrow> bool" where
  "unresolved c = (isFlagged c \<and> investigationStatus c \<noteq> Some ''resolved'')"

section \<open>Cost calculations (utils/helpers.ts)\<close>

definition calculateTotalCosts :: "cost_entry js_value \<Rightarrow> real js_result" where
  "calculateTotalCosts cs =
     (if \<not> truthy cs \<or> \<not> isArray cs then Inr 0
      else try_catch
        (js_reduce
           (\<lambda>sum cost. let amt = (case amount cost of Some a \<Rightarrow> a | None \<Rightarrow> 0)
                        in sum + amt)
           0 cs)
        (\<lambda>error. Inr 0))"

text \<open>
  \<^verbatim>\<open>trip.additionalCosts?.reduce((sum, cost) => sum + cost.amount, 0) || 0\<close>: the
  optional chaining yields \<^verbatim>\<open>undefined\<close> for an absent list, which \<^verbatim>\<open>|| 0\<close>
  turns into 0.
\<close>

definition additionalCostsTotal :: "trip \<Rightarrow> real" where
  "additionalCostsTotal trip =
     or_zero (map_option (foldl (\<lambda>sum cost. sum + additional_cost.amount cost) 0)
                (additionalCosts trip))"

definition calculateKPIs :: "trip \<Rightarrow> kpis js_result" where
  "calculateKPIs trip =
     try_catch
       (let totalRevenue = or_zero (baseRevenue trip) in
        js_then (calculateTotalCosts (costs trip)) (\<lambda>totalExpenses.
          let totalCosts = totalExpenses + additionalCostsTotal trip;
              netProfit = totalRevenue - totalCosts;
              profitMargin = (if totalRevenue > 0 then (netProfit / totalRevenue) * 100 else 0);
              costPerKm = (case distanceKm trip of
                             None \<Rightarrow> 0
                           | Some d \<Rightarrow> if d \<noteq> 0 \<and> d > 0 then totalCosts / d else 0);
              currency = revenueCurrency trip
          in Inr \<lparr>totalRevenue = totalRevenue, totalExpenses = totalCosts,
                   netProfit = netProfit, profitMargin = profitMargin,
                   costPerKm = costPerKm, currency = currency\<rparr>))
       (\<lambda>error. Inr \<lparr>totalRevenue = 0, totalExpenses = 0, netProfit = 0, profitMargin = 0,
                       costPerKm = 0,
                       currency = (case revenueCurrency trip of
                                     None \<Rightarrow> Some ''ZAR'' | Some c \<Rightarrow> Some c)\<rparr>)"

section \<open>The cross-trip list of flagged costs (utils/helpers.ts)\<close>

text \<open>
  \<^verbatim>\<open>Array.prototype.forEach\<close> with a callback that updates an accumulator and may
  throw: the first exception ends the loop.
\<close>

fun forEach_list :: "('s \<Rightarrow> 'a \<Rightarrow> 's js_result) \<Rightarrow> 's \<Rightarrow> 'a list \<Rightarrow> 's js_result" where
  "forEach_list f s [] = Inr s"
| "forEach_list f s (x # xs) = js_then (f s x) (\<lambda>s'. forEach_list f s' xs)"

definition js_forEach :: "('s \<Rightarrow> 'a \<Rightarrow> 's js_result) \<Rightarrow> 's \<Rightarrow> 'a js_value \<Rightarrow> 's js_result" where
  "js_forEach f s v = (case v of JsArray xs \<Rightarrow> forEach_list f s xs | _ \<Rightarrow> Inl TypeError)"

text \<open>
  \<^verbatim>\<open>Array.prototype.sort(compare)\<close> is a built-in of the language. ECMAScript
  requires it to be stable, and for a consistent comparator the stable sorted
  permutation is unique; insertion from the right computes it. An element goes in
  front of the first element it does not come after (\<open>compare x y \<le> 0\<close>).
\<close>

fun js_insert :: "('a \<Rightarrow> 'a \<Rightarrow> int) \<Rightarrow> 'a \<Rightarrow> 'a list \<Rightarrow> 'a list" where
  "js_insert compare x [] = [x]"
| "js_insert compare x (y # ys) =
     (if compare x y \<le> 0 then x # y # ys else y # js_insert compare x ys)"

definition js_sort :: "('a \<Rightarrow> 'a \<Rightarrow> int) \<Rightarrow> 'a list \<Rightarrow> 'a list" where
  "js_sort compare xs = foldr (js_insert compare) xs []"

text \<open>\<^verbatim>\<open>new Date(x.flaggedAt || x.date).getTime()\<close>\<close>

definition flagTime :: "'a cost_entry_scheme \<Rightarrow> int" where
  "flagTime x = (case flaggedAt x of Some t \<Rightarrow> t | None \<Rightarrow> date x)"

definition compareFlagged :: "flagged_cost \<Rightarrow> flagged_cost \<Rightarrow> int" where
  "compareFlagged a b =
     (if investigationStatus a = Some ''pending'' \<and> investigationStatus b \<noteq> Some ''pending''
      then - 1
      else if investigationStatus a \<noteq> Some ''pending'' \<and> investigationStatus b = Some ''pending''
      then 1
      else flagTime b - flagTime a)"

text \<open>
  \<^verbatim>\<open>{...cost, tripFleetNumber: trip.fleetNumber, tripRoute: trip.route,
  tripDriverName: trip.driverName}\<close>
\<close>

definition enrich :: "trip \<Rightarrow> cost_entry \<Rightarrow> flagged_cost" where
  "enrich trip cost =
     cost_entry.extend cost
       (flagged_cost.fields (fleetNumber trip) (route trip) (driverName trip))"

text \<open>The two \<^verbatim>\<open>forEach\<close> callbacks; \<open>flaggedCosts\<close> is the array they push to.\<close>

definition pushIfFlagged ::
  "trip \<Rightarrow> flagged_cost list \<Rightarrow> cost_entry \<Rightarrow> flagged_cost list js_result" where
  "pushIfFlagged trip flaggedCosts cost =
     Inr (if isFlagged cost then flaggedCosts @ [enrich trip cost] else flaggedCosts)"

definition collectTrip :: "flagged_cost list \<Rightarrow> trip \<Rightarrow> flagged_cost list js_result" where
  "collectTrip flaggedCosts trip =
     (if \<not> truthy (costs trip) \<or> \<not> isArray (costs trip) then Inr flaggedCosts
      else js_forEach (pushIfFlagged trip) flaggedCosts (costs trip))"

definition getAllFlaggedCosts :: "trip js_value \<Rightarrow> flagged_cost list js_result" where
  "getAllFlaggedCosts trips =
     (if \<not> truthy trips \<or> \<not> isArray trips then Inr []
      else try_catch
        (js_then (js_forEach collectTrip [] trips)
           (\<lambda>flaggedCosts. Inr (js_sort compareFlagged flaggedCosts)))
        (\<lambda>error. Inr []))"

section \<open>Probe verification (ProbeVerificationModal.tsx, ManualDieselEntryModal.tsx)\<close>

text \<open>
  The forms hold what the user typed as strings. \<^verbatim>\<open>parseFloat\<close> and \<^verbatim>\<open>Number\<close>
  are built-ins and are parameters of the model; their result is a number or
  \<^verbatim>\<open>NaN\<close>. Arithmetic with \<^verbatim>\<open>NaN\<close> yields \<^verbatim>\<open>NaN\<close>, and every comparison
  with \<^verbatim>\<open>NaN\<close> is false.
\<close>

datatype js_number = NaN | Num real

fun isNaN :: "js_number \<Rightarrow> bool" where
  "isNaN NaN = True"
| "isNaN (Num x) = False"

fun js_minus :: "js_number \<Rightarrow> js_number \<Rightarrow> js_number" where
  "js_minus (Num x) (Num y) = Num (x - y)"
| "js_minus a b = NaN"

fun js_abs :: "js_number \<Rightarrow> js_number" where
  "js_abs (Num x) = Num \<bar>x\<bar>"
| "js_abs NaN = NaN"

fun js_greater :: "js_number \<Rightarrow> js_number \<Rightarrow> bool" where
  "js_greater (Num x) (Num y) = (x > y)"
| "js_greater a b = False"

fun js_less :: "js_number \<Rightarrow> js_number \<Rightarrow> bool" where
  "js_less (Num x) (Num y) = (x < y)"
| "js_less a b = False"

record diesel_record =
  litresFilled :: real
  probeReading :: "js_number option"
  probeDiscrepancy :: "js_number option"
  probeVerified :: bool
  probeVerificationNotes :: string
  probeVerifiedBy :: string
  probeActionTaken :: "string option"

record probe_form =
  formProbeReading :: string
  verificationNotes :: string
  actionTaken :: string
  verifiedBy :: string

text \<open>\<open>None\<close> is the \<^verbatim>\<open>null\<close> that \<^verbatim>\<open>calculateDiscrepancy\<close> returns for an empty field.\<close>

definition calculateDiscrepancy ::
  "(string \<Rightarrow> js_number) \<Rightarrow> diesel_record \<Rightarrow> probe_form \<Rightarrow> js_number option" where
  "calculateDiscrepancy parseFloat dieselRecord formData =
     (if formProbeReading formData = [] then None
      else let reading = parseFloat (formProbeReading formData)
           in Some (js_minus (Num (litresFilled dieselRecord)) reading))"

definition hasLargeDiscrepancy :: "js_number option \<Rightarrow> bool" where
  "hasLargeDiscrepancy discrepancy =
     (case discrepancy of None \<Rightarrow> False | Some d \<Rightarrow> js_greater (js_abs d) (Num 50))"

text \<open>
  \<^verbatim>\<open>validateForm\<close> collects the messages in \<^verbatim>\<open>newErrors\<close>, an object with one
  key for each field in error, and accepts the form when it has no key. The object is
  the list of its entries.
\<close>

definition validateForm ::
  "(string \<Rightarrow> js_number) \<Rightarrow> diesel_record \<Rightarrow> probe_form \<Rightarrow> (string \<times> string) list" where
  "validateForm parseFloat dieselRecord formData =
     (if formProbeReading formData = []
      then [(''probeReading'', ''Probe reading is required'')]
      else if isNaN (parseFloat (formProbeReading formData))
              \<or> js_less (parseFloat (formProbeReading formData)) (Num 0)
      then [(''probeReading'', ''Must be a valid positive number'')]
      else [])
     @ (if hasLargeDiscrepancy (calculateDiscrepancy parseFloat dieselRecord formData)
           \<and> verificationNotes formData = []
        then [(''verificationNotes'',
               ''Verification notes are required for large discrepancies'')]
        else [])"

text \<open>
  \<^verbatim>\<open>handleSubmit\<close>: nothing happens when the form is not valid (\<open>None\<close>); otherwise
  the record passed to \<^verbatim>\<open>updateDieselRecord\<close> is returned. The time stamp and the
  attachments of the update are not modelled.
\<close>

definition handleSubmit ::
  "(string \<Rightarrow> js_number) \<Rightarrow> diesel_record \<Rightarrow> probe_form \<Rightarrow> diesel_record option" where
  "handleSubmit parseFloat dieselRecord formData =
     (if validateForm parseFloat dieselRecord formData \<noteq> [] then None
      else let reading = parseFloat (formProbeReading formData);
               discrepancy = js_minus (Num (litresFilled dieselRecord)) reading
           in Some (dieselRecord\<lparr>probeReading := Some reading,
                      probeDiscrepancy := Some discrepancy,
                      probeVerified := True,
                      probeVerificationNotes := verificationNotes formData,
                      probeVerifiedBy := verifiedBy formData,
                      probeActionTaken :=
                        (if actionTaken formData = [] then None
                         else Some (actionTaken formData))\<rparr>))"

text \<open>
  The manual entry form (\<^verbatim>\<open>ManualDieselEntryModal.tsx\<close>). \<open>hasProbe\<close> is
  \<^verbatim>\<open>TRUCKS_WITH_PROBES.includes(formData.fleetNumber)\<close>; the table is not part of
  the sources and the flag is a parameter, as is \<^verbatim>\<open>Number\<close>. The currency of the
  form is not read by the functions below and is left out.
\<close>

fun js_truthy :: "js_number \<Rightarrow> bool" where
  "js_truthy (Num x) = (x \<noteq> 0)"
| "js_truthy NaN = False"

fun js_less_eq :: "js_number \<Rightarrow> js_number \<Rightarrow> bool" where
  "js_less_eq (Num x) (Num y) = (x \<le> y)"
| "js_less_eq a b = False"

record diesel_entry_form =
  entryFleetNumber :: string
  entryDate :: string
  entryKmReading :: string
  entryPreviousKmReading :: string
  entryLitresFilled :: string
  entryCostPerLitre :: string
  entryTotalCost :: string
  entryFuelStation :: string
  entryDriverName :: string
  entryNotes :: string
  entryTripId :: string
  entryProbeReading :: string

text \<open>The preview of the discrepancy that the form shows while it is filled in.\<close>

definition calculateProbeDiscrepancy ::
  "(string \<Rightarrow> js_number) \<Rightarrow> bool \<Rightarrow> diesel_entry_form \<Rightarrow> js_number option" where
  "calculateProbeDiscrepancy toNumber hasProbe formData =
     (if \<not> hasProbe \<or> entryProbeReading formData = [] \<or> entryLitresFilled formData = []
      then None
      else let reading = toNumber (entryProbeReading formData);
               litres = toNumber (entryLitresFilled formData)
           in Some (js_minus litres reading))"

text \<open>
  \<^verbatim>\<open>validateForm\<close> of the manual entry form. Each \<^verbatim>\<open>if\<close> of the source may set
  one key of \<^verbatim>\<open>newErrors\<close>; the list holds the assignments in their order (a key
  that is set twice stands twice), and the form is valid when there is none.
\<close>

definition errorIf :: "bool \<Rightarrow> string \<Rightarrow> string \<Rightarrow> (string \<times> string) list" where
  "errorIf c key message = (if c then [(key, message)] else [])"

definition validateEntryForm ::
  "(string \<Rightarrow> js_number) \<Rightarrow> bool \<Rightarrow> diesel_entry_form \<Rightarrow> (string \<times> string) list" where
  "validateEntryForm toNumber hasProbe formData =
     errorIf (entryFleetNumber formData = []) ''fleetNumber'' ''Fleet number is required''
     @ errorIf (entryDate formData = []) ''date'' ''Date is required''
     @ errorIf (entryKmReading formData = []) ''kmReading'' ''KM reading is required''
     @ errorIf (entryLitresFilled formData = []) ''litresFilled'' ''Litres filled is required''
     @ errorIf (entryTotalCost formData = []) ''totalCost'' ''Total cost is required''
     @ errorIf (entryFuelStation formData = []) ''fuelStation'' ''Fuel station is required''
     @ errorIf (entryDriverName formData = []) ''driverName'' ''Driver name is required''
     @ errorIf (entryKmReading formData \<noteq> []
                \<and> (isNaN (toNumber (entryKmReading formData))
                    \<or> js_less_eq (toNumber (entryKmReading formData)) (Num 0)))
         ''kmReading'' ''Must be a valid positive number''
     @ errorIf (entryPreviousKmReading formData \<noteq> []
                \<and> (isNaN (toNumber (entryPreviousKmReading formData))
                    \<or> js_less (toNumber (entryPreviousKmReading formData)) (Num 0)))
         ''previousKmReading'' ''Must be a valid number''
     @ errorIf (entryLitresFilled formData \<noteq> []
                \<and> (isNaN (toNumber (entryLitresFilled formData))
                    \<or> js_less_eq (toNumber (entryLitresFilled formData)) (Num 0)))
         ''litresFilled'' ''Must be a valid positive number''
     @ errorIf (entryTotalCost formData \<noteq> []
                \<and> (isNaN (toNumber (entryTotalCost formData))
                    \<or> js_less_eq (toNumber (entryTotalCost formData)) (Num 0)))
         ''totalCost'' ''Must be a valid positive number''
     @ errorIf (entryKmReading formData \<noteq> [] \<and> entryPreviousKmReading formData \<noteq> []
                \<and> js_less_eq (toNumber (entryKmReading formData))
                      (toNumber (entryPreviousKmReading formData)))
         ''kmReading'' ''Current KM must be greater than previous KM''
     @ (if hasProbe
        then if entryProbeReading formData = []
             then [(''probeReading'', ''Probe reading is required for this truck'')]
             else errorIf (isNaN (toNumber (entryProbeReading formData))
                           \<or> js_less (toNumber (entryProbeReading formData)) (Num 0))
                    ''probeReading'' ''Must be a valid number''
        else [])"

text \<open>
  \<^verbatim>\<open>handleSubmit\<close> of the manual entry form: nothing happens when the form is not
  valid (\<open>None\<close>); otherwise the record goes to \<^verbatim>\<open>addDieselRecord\<close> and an alert
  is shown. Of \<^verbatim>\<open>recordData\<close> the litres and the probe fields are modelled (the
  readings, the costs, the distance and the texts are not), of the alert the part
  about the probe. \<open>None\<close> in a field is \<^verbatim>\<open>undefined\<close>.
\<close>

record entry_record =
  recLitresFilled :: js_number
  recHasProbe :: bool
  recProbeReading :: "js_number option"
  recProbeDiscrepancy :: "js_number option"
  recProbeVerified :: bool

datatype probe_notice = NoProbeNotice | LargeDiscrepancyWarning js_number
  | WithinAcceptableRange js_number

definition submitEntry ::
  "(string \<Rightarrow> js_number) \<Rightarrow> bool \<Rightarrow> diesel_entry_form
     \<Rightarrow> (entry_record \<times> probe_notice) option" where
  "submitEntry toNumber hasProbe formData =
     (if validateEntryForm toNumber hasProbe formData \<noteq> [] then None
      else let litres = toNumber (entryLitresFilled formData);
               reading = (if entryProbeReading formData \<noteq> []
                          then Some (toNumber (entryProbeReading formData)) else None);
               discrepancy = (case reading of
                                None \<Rightarrow> None
                              | Some r \<Rightarrow> if js_truthy r \<and> js_truthy litres
                                          then Some (js_minus litres r) else None);
               verified = (reading \<noteq> None);
               recordData = \<lparr>recLitresFilled = litres, recHasProbe = hasProbe,
                  recProbeReading = reading, recProbeDiscrepancy = discrepancy,
                  recProbeVerified = verified\<rparr>;
               notice = (case discrepancy of
                           None \<Rightarrow> NoProbeNotice
                         | Some d \<Rightarrow> if \<not> hasProbe then NoProbeNotice
                                     else if js_greater (js_abs d) (Num 50)
                                     then LargeDiscrepancyWarning (js_abs d)
                                     else WithinAcceptableRange (js_abs d))
           in Some (recordData, notice))"

section \<open>Diesel efficiency evaluation\<close>

text \<open>
  The classification of a diesel record (\<^verbatim>\<open>performanceStatus\<close> of the interface
  \<^verbatim>\<open>DieselRecord\<close>), the fleet norm (\<^verbatim>\<open>DieselNorms\<close>) and the three fields of a
  record that the evaluation fills.
\<close>

datatype performance = Poor | Normal | Excellent

record diesel_norms =
  expectedKmPerLitre :: real
  tolerancePercentage :: real

record efficiency =
  efficiencyVariance :: real
  performanceStatus :: performance
  requiresDebrief :: bool

text \<open>
  Modelled from the spec: the function that evaluates a diesel record against its
  fleet norm, filling \<open>efficiencyVariance\<close>, \<open>performanceStatus\<close> and
  \<open>requiresDebrief\<close>, is not among the sources; only the interfaces and the readers
  of the three fields are. The definition follows section 4.4 of the specification:
  the variance is (actual - expected) / expected * 100, the status is poor below minus
  the tolerance, excellent above the tolerance and normal otherwise, and a debrief is
  required when the status is poor or the absolute variance exceeds the tolerance.
\<close>

definition evaluateEfficiency :: "diesel_norms \<Rightarrow> real \<Rightarrow> efficiency" where
  "evaluateEfficiency norms actualKmPerLitre =
     (let variance = (actualKmPerLitre - expectedKmPerLitre norms) / expectedKmPerLitre norms * 100;
          st = (if variance < - tolerancePercentage norms then Poor
                else if variance > tolerancePercentage norms then Excellent
                else Normal)
      in \<lparr>efficiencyVariance = variance, performanceStatus = st,
          requiresDebrief = (st = Poor \<or> \<bar>variance\<bar> > tolerancePercentage norms)\<rparr>)"

section \<open>Week bucketing (YearToDateKPIs.tsx)\<close>

text \<open>The trips that \<^verbatim>\<open>weeklyMetrics\<close> looks at, and the date it files a trip under.\<close>

definition isCompletedTrip :: "trip \<Rightarrow> bool" where
  "isCompletedTrip trip =
     (status trip = ''completed'' \<or> status trip = ''invoiced'' \<or> status trip = ''paid'')"

definition offloadDate :: "trip \<Rightarrow> int" where
  "offloadDate trip =
     (case finalOffloadDateTime trip of
        Some d \<Rightarrow> d
      | None \<Rightarrow> (case actualOffloadDateTime trip of Some d \<Rightarrow> d | None \<Rightarrow> endDate trip))"

text \<open>
  The body of the loop up to \<^verbatim>\<open>weekKey\<close>: \<open>weekMonday\<close> is the variable
  \<^verbatim>\<open>monday\<close>. The key is the string
  \<^verbatim>\<open>`${monday.getFullYear()}-W${getWeekNumber(monday)}`\<close>; it is represented by the
  pair of the two numbers.
\<close>

definition weekMonday :: "int \<Rightarrow> int" where
  "weekMonday d = setDate d (getDate d - getDay d + 1)"

definition tripWeekKey :: "trip \<Rightarrow> int \<times> int" where
  "tripWeekKey trip =
     (let monday = weekMonday (offloadDate trip)
      in (getFullYear monday, getWeekNumber monday))"

section \<open>Reference notions used in the statements\<close>

text \<open>
  What a cost entry contributes to a total: its amount, and 0 when the stored amount is
  not a number.
\<close>

definition countedAmount :: "cost_entry \<Rightarrow> real" where
  "countedAmount c = (case amount c of Some a \<Rightarrow> a | None \<Rightarrow> 0)"

text \<open>The additional costs of a trip; an absent list has none.\<close>

definition additionalEntries :: "trip \<Rightarrow> additional_cost list" where
  "additionalEntries t = (case additionalCosts t of None \<Rightarrow> [] | Some xs \<Rightarrow> xs)"

text \<open>
  The profit margin in the words of the specification: net profit over total revenue
  times 100, and 0 when the total revenue is 0.
\<close>

definition profitMargin_as_specified :: "real \<Rightarrow> real \<Rightarrow> real" where
  "profitMargin_as_specified profit revenue =
     (if revenue = 0 then 0 else profit / revenue * 100)"

text \<open>
  The triage order of the flag dashboard: an entry whose investigation is pending stands
  before every other entry, and of two entries that are both pending or both not
  pending the one flagged later (by \<open>flaggedAt\<close>, else by its date) stands first.
\<close>

definition pending :: "'a cost_entry_scheme \<Rightarrow> bool" where
  "pending x = (investigationStatus x = Some ''pending'')"

definition triage_before :: "flagged_cost \<Rightarrow> flagged_cost \<Rightarrow> bool" where
  "triage_before a b =
     (if pending a = pending b then flagTime b \<le> flagTime a else pending a)"

text \<open>The flagged cost entries of a list of trips, each with its trip's details.\<close>

definition flaggedEntries :: "trip list \<Rightarrow> flagged_cost list" where
  "flaggedEntries ts =
     concat (map (\<lambda>t. map (enrich t) (filter isFlagged (entries (costs t)))) ts)"

text \<open>
  The week in the words of the specification: weeks run from Monday 00:00 to Sunday
  24:00, and a week is named by the day number of its Monday.
\<close>

definition mondayOfWeek_as_specified :: "int \<Rightarrow> int" where
  "mondayOfWeek_as_specified t = Day t - (getDay t + 6) mod 7"

text \<open>
  The week key as a function of the day number of the Monday alone: the year of that
  day, and the number of whole weeks from the Sunday on or before 1 January, plus one.
\<close>

definition keyOfMonday :: "int \<Rightarrow> int \<times> int" where
  "keyOfMonday dayNumber =
     (let y = fst (civil_from_days dayNumber);
          firstDay = newDate y 0 1
      in (y, (dayNumber - Day firstDay + getDay firstDay + 1) div 7 + 1))"

section \<open>Sample data\<close>

definition cost_plain :: cost_entry where
  "cost_plain = \<lparr>amount = Some 200, isFlagged = False, investigationStatus = None,
     flaggedAt = None, date = 1736294400000\<rparr>"

definition cost_pending :: cost_entry where
  "cost_pending = \<lparr>amount = Some 150, isFlagged = True, investigationStatus = Some ''pending'',
     flaggedAt = Some 1736380800000, date = 1736294400000\<rparr>"

definition cost_resolved :: cost_entry where
  "cost_resolved = \<lparr>amount = Some 75, isFlagged = True, investigationStatus = Some ''resolved'',
     flaggedAt = None, date = 1736467200000\<rparr>"

definition trip_with :: "string \<Rightarrow> cost_entry js_value \<Rightarrow> trip" where
  "trip_with st cs = \<lparr>fleetNumber = ''21H'', route = ''Harare - Beira'', driverName = ''T. Moyo'',
     status = st, costs = cs, additionalCosts = None, baseRevenue = Some 1000,
     distanceKm = Some 100, revenueCurrency = Some ''ZAR'', endDate = 1736596800000,
     finalOffloadDateTime = None, actualOffloadDateTime = None\<rparr>"

definition trip_negative_revenue :: trip where
  "trip_negative_revenue = (trip_with ''active'' (JsArray []))\<lparr>baseRevenue := Some (- 100)\<rparr>"

definition trip_scenario :: trip where
  "trip_scenario = (trip_with ''active''
      (JsArray [cost_plain, cost_pending]))\<lparr>additionalCosts := Some [\<lparr>additional_cost.amount = 50\<rparr>]\<rparr>"

definition cost_in_progress :: cost_entry where
  "cost_in_progress = \<lparr>amount = Some 90, isFlagged = True,
     investigationStatus = Some ''in-progress'', flaggedAt = Some 1736553600000,
     date = 1736294400000\<rparr>"

definition trip_a :: trip where
  "trip_a = trip_with ''active'' (JsArray [cost_plain, cost_resolved, cost_pending])"

definition trip_b :: trip where
  "trip_b = (trip_with ''completed'' (JsArray [cost_in_progress]))
     \<lparr>fleetNumber := ''33H'', route := ''Lusaka - Durban'', driverName := ''P. Banda''\<rparr>"

definition zeroed_kpis :: kpis where
  "zeroed_kpis = \<lparr>totalRevenue = 0, totalExpenses = 0, netProfit = 0, profitMargin = 0,
     costPerKm = 0, currency = Some ''ZAR''\<rparr>"

definition fill_450 :: diesel_record where
  "fill_450 = \<lparr>litresFilled = 450, probeReading = None, probeDiscrepancy = None,
     probeVerified = False, probeVerificationNotes = [], probeVerifiedBy = [],
     probeActionTaken = None\<rparr>"

definition reading_380 :: "string \<Rightarrow> probe_form" where
  "reading_380 ns = \<lparr>formProbeReading = ''380'', verificationNotes = ns,
     actionTaken = [], verifiedBy = ''Current User''\<rparr>"

text \<open>
  A stand-in for \<^verbatim>\<open>parseFloat\<close> and \<^verbatim>\<open>Number\<close> that knows the strings of the
  examples.
\<close>

definition parse_sample :: "string \<Rightarrow> js_number" where
  "parse_sample s =
     (if s = ''380'' then Num 380 else if s = ''450'' then Num 450
      else if s = ''420'' then Num 420 else if s = ''-10'' then Num (- 10)
      else if s = ''120500'' then Num 120500 else if s = ''9000'' then Num 9000
      else NaN)"

definition fill_30 :: diesel_record where
  "fill_30 = \<lparr>litresFilled = 30, probeReading = None, probeDiscrepancy = None,
     probeVerified = False, probeVerificationNotes = [], probeVerifiedBy = [],
     probeActionTaken = None\<rparr>"

definition reading_minus_10 :: probe_form where
  "reading_minus_10 = \<lparr>formProbeReading = ''-10'', verificationNotes = [],
     actionTaken = [], verifiedBy = ''Current User''\<rparr>"

text \<open>A manual entry of 450 litres with a probe reading of 380, without notes.\<close>

definition entry_450_380 :: diesel_entry_form where
  "entry_450_380 = \<lparr>entryFleetNumber = ''21H'', entryDate = ''2025-01-11'',
     entryKmReading = ''120500'', entryPreviousKmReading = [], entryLitresFilled = ''450'',
     entryCostPerLitre = [], entryTotalCost = ''9000'', entryFuelStation = ''Beitbridge'',
     entryDriverName = ''T. Moyo'', entryNotes = [], entryTripId = [],
     entryProbeReading = ''380''\<rparr>"

definition norm_3_10 :: diesel_norms where
  "norm_3_10 = \<lparr>expectedKmPerLitre = 3, tolerancePercentage = 10\<rparr>"

text \<open>
  Two completed trips that end at noon on Saturday 2025-01-11 and on Sunday 2025-01-12,
  both days of the week that starts on Monday 2025-01-06.
\<close>

definition trip_saturday :: trip where
  "trip_saturday = (trip_with ''completed'' (JsArray []))\<lparr>endDate := 1736596800000\<rparr>"

definition trip_sunday :: trip where
  "trip_sunday = (trip_with ''completed'' (JsArray []))\<lparr>endDate := 1736683200000\<rparr>"

section \<open>Properties of the flag helpers\<close>

lemma getUnresolvedFlagsCount_eq:
  "getUnresolvedFlagsCount v = Inr (length (filter unresolved (entries v)))"
  by (cases v) (simp_all add: getUnresolvedFlagsCount_def try_catch_def js_then_def
      js_filter_def unresolved_def [abs_def])

lemma getFlaggedCostsCount_eq:
  "getFlaggedCostsCount v = Inr (length (filter isFlagged (entries v)))"
  by (cases v) (simp_all add: getFlaggedCostsCount_def try_catch_def js_then_def js_filter_def)

lemma canCompleteTrip_eq:
  "canCompleteTrip t = Inr (filter unresolved (entries (costs t)) = [])"
  by (simp add: canCompleteTrip_def getUnresolvedFlagsCount_eq try_catch_def js_then_def)

lemma shouldAutoCompleteTrip_eq:
  "shouldAutoCompleteTrip t =
     Inr (status t = ''active'' \<and> filter isFlagged (entries (costs t)) \<noteq> []
          \<and> filter unresolved (entries (costs t)) = [])"
  by (cases "costs t")
    (simp_all add: shouldAutoCompleteTrip_def getUnresolvedFlagsCount_eq try_catch_def
      js_then_def js_filter_def)

text \<open>
  Claim C2. For every trip, also one without cost entries, \<open>canCompleteTrip\<close> returns
  true exactly when the number of unresolved flags over the trip's costs (entries that
  are flagged and whose investigation status is not \<open>resolved\<close>) is zero;
  \<open>getUnresolvedFlagsCount\<close> is that number.
\<close>

theorem canCompleteTrip_iff_no_unresolved:
  "getUnresolvedFlagsCount (costs t)
     = Inr (length (filter (\<lambda>c. isFlagged c \<and> investigationStatus c \<noteq> Some ''resolved'')
              (entries (costs t))))
   \<and> canCompleteTrip t
     = Inr (length (filter (\<lambda>c. isFlagged c \<and> investigationStatus c \<noteq> Some ''resolved'')
              (entries (costs t))) = 0)"
  using getUnresolvedFlagsCount_eq [of "costs t"] canCompleteTrip_eq [of t]
  by (simp add: unresolved_def [abs_def])

theorem canCompleteTrip_iff_no_unresolved_witness:
  "canCompleteTrip (trip_with ''active'' (JsArray [])) = Inr True
   \<and> canCompleteTrip (trip_with ''active'' (JsArray [cost_plain, cost_resolved])) = Inr True
   \<and> getUnresolvedFlagsCount (JsArray [cost_plain, cost_pending, cost_resolved]) = Inr 1
   \<and> canCompleteTrip (trip_with ''active'' (JsArray [cost_plain, cost_pending, cost_resolved]))
       = Inr False"
  using canCompleteTrip_iff_no_unresolved [of "trip_with ''active'' (JsArray [])"]
    canCompleteTrip_iff_no_unresolved [of "trip_with ''active'' (JsArray [cost_plain, cost_resolved])"]
    canCompleteTrip_iff_no_unresolved
      [of "trip_with ''active'' (JsArray [cost_plain, cost_pending, cost_resolved])"]
  by (simp add: trip_with_def cost_plain_def cost_pending_def cost_resolved_def)

text \<open>
  Claim C9. For every trip whose \<open>costs\<close> field is null, undefined or not an array,
  \<open>getUnresolvedFlagsCount\<close> returns 0 and \<open>canCompleteTrip\<close> returns true: absent or
  malformed cost data never blocks the transition from active to completed.
\<close>

theorem malformed_costs_never_block_completion:
  "\<not> isArray (costs t) \<Longrightarrow>
     getUnresolvedFlagsCount (costs t) = Inr 0 \<and> canCompleteTrip t = Inr True"
  by (cases "costs t") (simp_all add: getUnresolvedFlagsCount_eq canCompleteTrip_eq)

theorem malformed_costs_never_block_completion_witness:
  "getUnresolvedFlagsCount JsNull = Inr 0
   \<and> canCompleteTrip (trip_with ''active'' JsNull) = Inr True
   \<and> canCompleteTrip (trip_with ''active'' JsUndefined) = Inr True
   \<and> canCompleteTrip (trip_with ''active'' (JsNonArray True)) = Inr True
   \<and> canCompleteTrip (trip_with ''active'' (JsNonArray False)) = Inr True"
  using malformed_costs_never_block_completion [of "trip_with ''active'' JsNull"]
    malformed_costs_never_block_completion [of "trip_with ''active'' JsUndefined"]
    malformed_costs_never_block_completion [of "trip_with ''active'' (JsNonArray True)"]
    malformed_costs_never_block_completion [of "trip_with ''active'' (JsNonArray False)"]
  by (simp add: trip_with_def)

text \<open>
  Claim C4. For every trip, \<open>shouldAutoCompleteTrip\<close> returns true exactly when the
  trip's status is \<open>active\<close>, at least one of its cost entries is flagged, and no cost
  entry is flagged with an investigation status other than \<open>resolved\<close>. In particular
  a trip without any flagged cost is never auto-completed by this rule.
\<close>

theorem shouldAutoCompleteTrip_iff:
  "shouldAutoCompleteTrip t =
     Inr (status t = ''active''
          \<and> (\<exists>c \<in> set (entries (costs t)). isFlagged c)
          \<and> \<not> (\<exists>c \<in> set (entries (costs t)).
                 isFlagged c \<and> investigationStatus c \<noteq> Some ''resolved''))
   \<and> ((\<forall>c \<in> set (entries (costs t)). \<not> isFlagged c)
        \<longrightarrow> shouldAutoCompleteTrip t = Inr False)"
proof -
  have flagged: "filter isFlagged (entries (costs t)) \<noteq> []
      \<longleftrightarrow> (\<exists>c \<in> set (entries (costs t)). isFlagged c)"
    by (simp add: filter_empty_conv)
  have blocked: "filter unresolved (entries (costs t)) = []
      \<longleftrightarrow> \<not> (\<exists>c \<in> set (entries (costs t)).
                 isFlagged c \<and> investigationStatus c \<noteq> Some ''resolved'')"
    by (simp add: filter_empty_conv unresolved_def)
  show ?thesis
    unfolding shouldAutoCompleteTrip_eq flagged blocked by blast
qed

theorem shouldAutoCompleteTrip_iff_witness:
  "shouldAutoCompleteTrip (trip_with ''active'' (JsArray [cost_plain, cost_resolved])) = Inr True
   \<and> shouldAutoCompleteTrip (trip_with ''completed'' (JsArray [cost_plain, cost_resolved]))
       = Inr False
   \<and> shouldAutoCompleteTrip (trip_with ''active'' (JsArray [cost_pending, cost_resolved]))
       = Inr False
   \<and> shouldAutoCompleteTrip (trip_with ''active'' (JsArray [cost_plain])) = Inr False
   \<and> shouldAutoCompleteTrip (trip_with ''active'' (JsArray [])) = Inr False
   \<and> shouldAutoCompleteTrip (trip_with ''active'' JsNull) = Inr False"
  using shouldAutoCompleteTrip_iff [of "trip_with ''active'' (JsArray [cost_plain, cost_resolved])"]
    shouldAutoCompleteTrip_iff [of "trip_with ''completed'' (JsArray [cost_plain, cost_resolved])"]
    shouldAutoCompleteTrip_iff [of "trip_with ''active'' (JsArray [cost_pending, cost_resolved])"]
    shouldAutoCompleteTrip_iff [of "trip_with ''active'' (JsArray [cost_plain])"]
    shouldAutoCompleteTrip_iff [of "trip_with ''active'' (JsArray [])"]
    shouldAutoCompleteTrip_iff [of "trip_with ''active'' JsNull"]
  by (simp add: trip_with_def cost_plain_def cost_pending_def cost_resolved_def)

text \<open>
  Claim C10. For every trip, if \<open>shouldAutoCompleteTrip\<close> returns true then
  \<open>canCompleteTrip\<close> returns true as well, the trip's status is \<open>active\<close> and
  \<open>getFlaggedCostsCount\<close> of its costs is at least 1. The converse fails: there is a
  trip that may be completed by hand and is not auto-completed, so eligibility for
  auto-completion is strictly stronger.
\<close>

theorem shouldAutoComplete_implies_canComplete:
  "(shouldAutoCompleteTrip t = Inr True \<longrightarrow>
      canCompleteTrip t = Inr True \<and> status t = ''active''
      \<and> (\<exists>n. getFlaggedCostsCount (costs t) = Inr n \<and> 1 \<le> n))
   \<and> (\<exists>u. canCompleteTrip u = Inr True \<and> shouldAutoCompleteTrip u = Inr False)"
proof
  show "shouldAutoCompleteTrip t = Inr True \<longrightarrow>
      canCompleteTrip t = Inr True \<and> status t = ''active''
      \<and> (\<exists>n. getFlaggedCostsCount (costs t) = Inr n \<and> 1 \<le> n)"
    by (auto simp add: shouldAutoCompleteTrip_eq canCompleteTrip_eq getFlaggedCostsCount_eq
        Suc_le_eq)
  have "canCompleteTrip (trip_with ''active'' (JsArray [])) = Inr True
      \<and> shouldAutoCompleteTrip (trip_with ''active'' (JsArray [])) = Inr False"
    by (simp add: shouldAutoCompleteTrip_eq canCompleteTrip_eq trip_with_def)
  then show "\<exists>u. canCompleteTrip u = Inr True \<and> shouldAutoCompleteTrip u = Inr False"
    by blast
qed

theorem shouldAutoComplete_implies_canComplete_witness:
  "shouldAutoCompleteTrip (trip_with ''active'' (JsArray [cost_plain, cost_resolved])) = Inr True
   \<and> canCompleteTrip (trip_with ''active'' (JsArray [cost_plain, cost_resolved])) = Inr True
   \<and> getFlaggedCostsCount (JsArray [cost_plain, cost_resolved]) = Inr 1"
proof -
  have fire: "shouldAutoCompleteTrip (trip_with ''active'' (JsArray [cost_plain, cost_resolved]))
      = Inr True"
    by (simp add: shouldAutoCompleteTrip_eq trip_with_def cost_plain_def cost_resolved_def
        unresolved_def)
  have count: "getFlaggedCostsCount (JsArray [cost_plain, cost_resolved]) = Inr 1"
    by (simp add: getFlaggedCostsCount_eq cost_plain_def cost_resolved_def)
  from shouldAutoComplete_implies_canComplete
    [of "trip_with ''active'' (JsArray [cost_plain, cost_resolved])"] fire
  have "canCompleteTrip (trip_with ''active'' (JsArray [cost_plain, cost_resolved])) = Inr True"
    by blast
  with fire count show ?thesis by blast
qed

section \<open>Properties of the cost calculations\<close>

lemma foldl_add_sum_list:
  "foldl (\<lambda>sum x. sum + f x) a xs = (a::real) + sum_list (map f xs)"
  by (induction xs arbitrary: a) simp_all

lemma calculateTotalCosts_eq:
  "calculateTotalCosts v = Inr (sum_list (map countedAmount (entries v)))"
  by (cases v)
    (simp_all add: calculateTotalCosts_def try_catch_def js_reduce_def foldl_add_sum_list
      countedAmount_def [abs_def])

lemma additionalCostsTotal_eq:
  "additionalCostsTotal t = sum_list (map additional_cost.amount (additionalEntries t))"
  by (cases "additionalCosts t")
    (simp_all add: additionalCostsTotal_def additionalEntries_def or_zero_def foldl_add_sum_list)

lemma calculateKPIs_eq:
  "calculateKPIs t =
     (let revenue = or_zero (baseRevenue t);
          expenses = sum_list (map countedAmount (entries (costs t)))
                     + sum_list (map additional_cost.amount (additionalEntries t))
      in Inr \<lparr>totalRevenue = revenue, totalExpenses = expenses,
               netProfit = revenue - expenses,
               profitMargin = (if 0 < revenue then (revenue - expenses) / revenue * 100 else 0),
               costPerKm = (case distanceKm t of None \<Rightarrow> 0
                            | Some d \<Rightarrow> if 0 < d then expenses / d else 0),
               currency = revenueCurrency t\<rparr>)"
  by (cases "distanceKm t")
    (simp_all add: calculateKPIs_def calculateTotalCosts_eq additionalCostsTotal_eq
      try_catch_def js_then_def Let_def)

text \<open>
  Claim C1, as amended. For every trip \<open>calculateKPIs\<close> returns a record (it never
  throws) in which \<open>totalRevenue\<close> is the base revenue (0 when it is missing),
  \<open>totalExpenses\<close> is the sum of the cost-entry amounts plus the sum of the
  additional-cost amounts, \<open>netProfit\<close> is the revenue minus that total,
  \<open>profitMargin\<close> is net profit / revenue * 100 when the revenue is positive and 0
  otherwise (so no division by zero occurs), and \<open>costPerKm\<close> is the total over the
  distance when the distance is positive and 0 otherwise.
\<close>

theorem calculateKPIs_correct:
  "\<exists>k. calculateKPIs t = Inr k
     \<and> totalRevenue k = or_zero (baseRevenue t)
     \<and> totalExpenses k = sum_list (map countedAmount (entries (costs t)))
                          + sum_list (map additional_cost.amount (additionalEntries t))
     \<and> netProfit k = totalRevenue k - totalExpenses k
     \<and> profitMargin k
         = (if 0 < totalRevenue k then netProfit k / totalRevenue k * 100 else 0)
     \<and> (totalRevenue k = 0 \<longrightarrow> profitMargin k = 0)
     \<and> costPerKm k = (case distanceKm t of None \<Rightarrow> 0
                       | Some d \<Rightarrow> if 0 < d then totalExpenses k / d else 0)"
  by (cases "distanceKm t") (simp_all add: calculateKPIs_eq Let_def)

theorem calculateKPIs_correct_witness:
  "calculateKPIs trip_scenario
     = Inr \<lparr>totalRevenue = 1000, totalExpenses = 400, netProfit = 600, profitMargin = 60,
             costPerKm = 4, currency = Some ''ZAR''\<rparr>"
proof -
  from calculateKPIs_correct [of trip_scenario] obtain k where
    k: "calculateKPIs trip_scenario = Inr k"
      "totalRevenue k = or_zero (baseRevenue trip_scenario)"
      "totalExpenses k = sum_list (map countedAmount (entries (costs trip_scenario)))
           + sum_list (map additional_cost.amount (additionalEntries trip_scenario))"
      "netProfit k = totalRevenue k - totalExpenses k"
      "profitMargin k = (if 0 < totalRevenue k then netProfit k / totalRevenue k * 100 else 0)"
      "costPerKm k = (case distanceKm trip_scenario of None \<Rightarrow> 0
                       | Some d \<Rightarrow> if 0 < d then totalExpenses k / d else 0)"
    by blast
  have cur: "currency k = Some ''ZAR''"
    using k(1) by (auto simp add: calculateKPIs_eq Let_def trip_scenario_def trip_with_def)
  have rev: "totalRevenue k = 1000"
    using k(2) by (simp add: trip_scenario_def trip_with_def or_zero_def)
  have ex: "totalExpenses k = 400"
    using k(3) by (simp add: trip_scenario_def trip_with_def countedAmount_def
        additionalEntries_def cost_plain_def cost_pending_def)
  have np: "netProfit k = 600"
    using k(4) rev ex by simp
  have pm: "profitMargin k = 60"
    using k(5) rev np by simp
  have km: "costPerKm k = 4"
    using k(6) ex by (simp add: trip_scenario_def trip_with_def)
  have "k = \<lparr>totalRevenue = 1000, totalExpenses = 400, netProfit = 600, profitMargin = 60,
             costPerKm = 4, currency = Some ''ZAR''\<rparr>"
    using cur rev ex np pm km by (cases k) simp
  with k(1) show ?thesis by simp
qed

text \<open>
  The claim as the specification states it (the margin is the quotient whenever the
  revenue is not 0) fails for a negative base revenue: the code tests
  \<^verbatim>\<open>totalRevenue > 0\<close> and returns a margin of 0, where the quotient is 100.
\<close>

theorem calculateKPIs_negative_revenue_counterexample:
  "calculateKPIs trip_negative_revenue
     = Inr \<lparr>totalRevenue = - 100, totalExpenses = 0, netProfit = - 100, profitMargin = 0,
             costPerKm = 0, currency = Some ''ZAR''\<rparr>
   \<and> profitMargin_as_specified (- 100) (- 100) = 100"
  by (simp add: calculateKPIs_eq Let_def trip_negative_revenue_def trip_with_def or_zero_def
      additionalEntries_def profitMargin_as_specified_def)

section \<open>Properties of the flagged-cost list\<close>

lemma mset_js_insert: "mset (js_insert cmp x ys) = add_mset x (mset ys)"
  by (induction ys) simp_all

lemma set_js_insert: "set (js_insert cmp x ys) = insert x (set ys)"
  by (induction ys) auto

lemma mset_js_sort: "mset (js_sort cmp xs) = mset xs"
  by (induction xs) (simp_all add: js_sort_def mset_js_insert)

lemma sorted_wrt_js_insert:
  assumes total: "\<And>a b. cmp a b \<le> 0 \<or> cmp b a \<le> 0"
    and trans: "\<And>a b c. cmp a b \<le> 0 \<Longrightarrow> cmp b c \<le> 0 \<Longrightarrow> cmp a c \<le> 0"
  shows "sorted_wrt (\<lambda>a b. cmp a b \<le> 0) ys
    \<Longrightarrow> sorted_wrt (\<lambda>a b. cmp a b \<le> 0) (js_insert cmp x ys)"
proof (induction ys)
  case Nil
  then show ?case by simp
next
  case (Cons y ys)
  show ?case
  proof (cases "cmp x y \<le> 0")
    case True
    then have "\<forall>z \<in> set ys. cmp x z \<le> 0"
      using Cons.prems trans by auto
    with True Cons.prems show ?thesis by simp
  next
    case False
    then have "cmp y x \<le> 0"
      using total [of x y] by simp
    with False Cons show ?thesis
      by (auto simp add: set_js_insert)
  qed
qed

lemma sorted_wrt_js_sort:
  assumes total: "\<And>a b. cmp a b \<le> 0 \<or> cmp b a \<le> 0"
    and trans: "\<And>a b c. cmp a b \<le> 0 \<Longrightarrow> cmp b c \<le> 0 \<Longrightarrow> cmp a c \<le> 0"
  shows "sorted_wrt (\<lambda>a b. cmp a b \<le> 0) (js_sort cmp xs)"
proof (induction xs)
  case Nil
  then show ?case by (simp add: js_sort_def)
next
  case (Cons x xs)
  have "js_sort cmp (x # xs) = js_insert cmp x (js_sort cmp xs)"
    by (simp add: js_sort_def)
  with Cons sorted_wrt_js_insert [of cmp, OF total trans] show ?case
    by simp
qed

lemma compareFlagged_le_iff: "compareFlagged a b \<le> 0 \<longleftrightarrow> triage_before a b"
  by (auto simp add: compareFlagged_def triage_before_def pending_def)

lemma triage_before_total: "triage_before a b \<or> triage_before b a"
  by (auto simp add: triage_before_def)

lemma triage_before_trans: "triage_before a b \<Longrightarrow> triage_before b c \<Longrightarrow> triage_before a c"
  by (auto simp add: triage_before_def split: if_splits)

lemma sorted_wrt_js_sort_compareFlagged:
  "sorted_wrt triage_before (js_sort compareFlagged xs)"
proof -
  have "sorted_wrt (\<lambda>a b. compareFlagged a b \<le> 0) (js_sort compareFlagged xs)"
  proof (rule sorted_wrt_js_sort)
    show "compareFlagged a b \<le> 0 \<or> compareFlagged b a \<le> 0" for a b
      using triage_before_total [of a b] by (simp add: compareFlagged_le_iff)
    show "compareFlagged a b \<le> 0 \<Longrightarrow> compareFlagged b c \<le> 0 \<Longrightarrow> compareFlagged a c \<le> 0"
      for a b c
      using triage_before_trans [of a b c] by (simp add: compareFlagged_le_iff)
  qed
  then show ?thesis
    by (simp add: compareFlagged_le_iff)
qed

lemma forEach_costs:
  "forEach_list (pushIfFlagged t) acc cs = Inr (acc @ map (enrich t) (filter isFlagged cs))"
  by (induction cs arbitrary: acc) (simp_all add: js_then_def pushIfFlagged_def)

lemma collectTrip_eq:
  "collectTrip acc t = Inr (acc @ map (enrich t) (filter isFlagged (entries (costs t))))"
  by (cases "costs t") (simp_all add: collectTrip_def js_forEach_def forEach_costs)

lemma forEach_trips:
  "forEach_list collectTrip acc ts = Inr (acc @ flaggedEntries ts)"
  by (induction ts arbitrary: acc) (simp_all add: collectTrip_eq js_then_def flaggedEntries_def)

lemma getAllFlaggedCosts_eq:
  "getAllFlaggedCosts v = Inr (js_sort compareFlagged (flaggedEntries (entries v)))"
  by (cases v)
    (simp_all add: getAllFlaggedCosts_def js_forEach_def forEach_trips try_catch_def
      js_then_def js_sort_def flaggedEntries_def)

lemma enrich_fields:
  "cost_entry.truncate (enrich t c) = c \<and> tripFleetNumber (enrich t c) = fleetNumber t
   \<and> tripRoute (enrich t c) = route t \<and> tripDriverName (enrich t c) = driverName t"
  by (simp add: enrich_def cost_entry.defs flagged_cost.defs)

text \<open>
  Claim C5. For every list of trips, \<open>getAllFlaggedCosts\<close> returns a list that holds
  exactly the flagged cost entries of those trips (with their multiplicities), each
  enriched with its trip's fleet number, route and driver name and otherwise unchanged.
  The list is in triage order: an entry whose investigation status is \<open>pending\<close> never
  stands behind one that is not pending, and among entries that agree on being pending
  the \<open>flaggedAt\<close> time (the cost's date when \<open>flaggedAt\<close> is absent) descends.
\<close>

theorem getAllFlaggedCosts_sorted_flagged:
  "\<exists>r. getAllFlaggedCosts (JsArray ts) = Inr r
     \<and> mset r
         = mset (concat (map (\<lambda>t. map (enrich t) (filter isFlagged (entries (costs t)))) ts))
     \<and> (\<forall>t c. cost_entry.truncate (enrich t c) = c
            \<and> tripFleetNumber (enrich t c) = fleetNumber t
            \<and> tripRoute (enrich t c) = route t
            \<and> tripDriverName (enrich t c) = driverName t)
     \<and> sorted_wrt triage_before r
     \<and> (\<forall>i j. i < j \<and> j < length r \<longrightarrow>
           (pending (r ! j) \<longrightarrow> pending (r ! i))
           \<and> (pending (r ! i) = pending (r ! j) \<longrightarrow> flagTime (r ! j) \<le> flagTime (r ! i)))"
proof -
  define r where "r = js_sort compareFlagged (flaggedEntries ts)"
  have res: "getAllFlaggedCosts (JsArray ts) = Inr r"
    by (simp add: getAllFlaggedCosts_eq r_def)
  have same: "mset r
      = mset (concat (map (\<lambda>t. map (enrich t) (filter isFlagged (entries (costs t)))) ts))"
    by (simp add: r_def mset_js_sort flaggedEntries_def)
  have sorted: "sorted_wrt triage_before r"
    by (simp add: r_def sorted_wrt_js_sort_compareFlagged)
  have pairs: "(pending (r ! j) \<longrightarrow> pending (r ! i))
      \<and> (pending (r ! i) = pending (r ! j) \<longrightarrow> flagTime (r ! j) \<le> flagTime (r ! i))"
    if "i < j" "j < length r" for i j
  proof -
    from sorted that have "triage_before (r ! i) (r ! j)"
      by (simp add: sorted_wrt_iff_nth_less)
    then show ?thesis
      by (auto simp add: triage_before_def split: if_splits)
  qed
  from res same sorted pairs enrich_fields show ?thesis
    by blast
qed

theorem getAllFlaggedCosts_sorted_flagged_witness:
  "getAllFlaggedCosts (JsArray [trip_a, trip_b])
     = Inr [enrich trip_a cost_pending, enrich trip_b cost_in_progress,
            enrich trip_a cost_resolved]
   \<and> tripFleetNumber (enrich trip_b cost_in_progress) = ''33H''
   \<and> flagTime (enrich trip_b cost_in_progress) = 1736553600000
   \<and> flagTime (enrich trip_a cost_resolved) = 1736467200000
   \<and> flagTime (enrich trip_a cost_pending) = 1736380800000"
  using getAllFlaggedCosts_sorted_flagged [of "[trip_a, trip_b]"]
  by (simp add: getAllFlaggedCosts_eq js_sort_def flaggedEntries_def compareFlagged_def
      flagTime_def enrich_def trip_a_def trip_b_def trip_with_def cost_plain_def
      cost_pending_def cost_resolved_def cost_in_progress_def cost_entry.defs
      flagged_cost.defs)

section \<open>Malformed input\<close>

text \<open>
  Claim C8, as amended. For a \<open>costs\<close> value that is null, undefined or not an array,
  \<open>calculateTotalCosts\<close>, \<open>getFlaggedCostsCount\<close> and \<open>getUnresolvedFlagsCount\<close> return
  0; \<open>getAllFlaggedCosts\<close> returns the empty list for such a list of trips and takes no
  entry from a trip whose costs are such a value; \<open>calculateKPIs\<close> counts such costs as
  0 and a missing base revenue as a revenue of 0 with a profit margin of 0, and computes
  the other fields from what the trip does have. None of the five functions throws, on
  any input.
\<close>

theorem malformed_input_defaults:
  "(\<not> isArray v \<longrightarrow>
      calculateTotalCosts v = Inr 0 \<and> getFlaggedCostsCount v = Inr 0
      \<and> getUnresolvedFlagsCount v = Inr 0)
   \<and> (\<not> isArray w \<longrightarrow> getAllFlaggedCosts w = Inr [])
   \<and> ((\<forall>t \<in> set ts. \<not> isArray (costs t)) \<longrightarrow> getAllFlaggedCosts (JsArray ts) = Inr [])
   \<and> (\<exists>k. calculateKPIs t = Inr k
         \<and> (\<not> isArray (costs t) \<longrightarrow>
               totalExpenses k = sum_list (map additional_cost.amount (additionalEntries t)))
         \<and> (baseRevenue t = None \<longrightarrow>
               totalRevenue k = 0 \<and> profitMargin k = 0 \<and> netProfit k = - totalExpenses k)
         \<and> totalRevenue k = or_zero (baseRevenue t)
         \<and> totalExpenses k = sum_list (map countedAmount (entries (costs t)))
                              + sum_list (map additional_cost.amount (additionalEntries t))
         \<and> netProfit k = totalRevenue k - totalExpenses k
         \<and> profitMargin k
             = (if 0 < totalRevenue k then netProfit k / totalRevenue k * 100 else 0)
         \<and> costPerKm k = (case distanceKm t of None \<Rightarrow> 0
                           | Some d \<Rightarrow> if 0 < d then totalExpenses k / d else 0)
         \<and> currency k = revenueCurrency t)
   \<and> (\<exists>n. calculateTotalCosts v' = Inr n)
   \<and> (\<exists>n. getFlaggedCostsCount v' = Inr n)
   \<and> (\<exists>n. getUnresolvedFlagsCount v' = Inr n)
   \<and> (\<exists>r. getAllFlaggedCosts w' = Inr r)"
proof -
  have counts: "\<not> isArray v \<longrightarrow>
      calculateTotalCosts v = Inr 0 \<and> getFlaggedCostsCount v = Inr 0
      \<and> getUnresolvedFlagsCount v = Inr 0"
    by (cases v)
      (simp_all add: calculateTotalCosts_eq getFlaggedCostsCount_eq getUnresolvedFlagsCount_eq)
  have no_trips: "\<not> isArray w \<longrightarrow> getAllFlaggedCosts w = Inr []"
    by (cases w) (simp_all add: getAllFlaggedCosts_eq flaggedEntries_def js_sort_def)
  have skipped: "(\<forall>t \<in> set ts. \<not> isArray (costs t)) \<longrightarrow> getAllFlaggedCosts (JsArray ts) = Inr []"
  proof
    assume bad: "\<forall>t \<in> set ts. \<not> isArray (costs t)"
    have "entries (costs t) = []" if "t \<in> set ts" for t
      using bad that by (cases "costs t") auto
    then have "flaggedEntries ts = []"
      by (simp add: flaggedEntries_def)
    then show "getAllFlaggedCosts (JsArray ts) = Inr []"
      by (simp add: getAllFlaggedCosts_eq js_sort_def)
  qed
  have kpi: "\<exists>k. calculateKPIs t = Inr k
         \<and> (\<not> isArray (costs t) \<longrightarrow>
               totalExpenses k = sum_list (map additional_cost.amount (additionalEntries t)))
         \<and> (baseRevenue t = None \<longrightarrow>
               totalRevenue k = 0 \<and> profitMargin k = 0 \<and> netProfit k = - totalExpenses k)
         \<and> totalRevenue k = or_zero (baseRevenue t)
         \<and> totalExpenses k = sum_list (map countedAmount (entries (costs t)))
                              + sum_list (map additional_cost.amount (additionalEntries t))
         \<and> netProfit k = totalRevenue k - totalExpenses k
         \<and> profitMargin k
             = (if 0 < totalRevenue k then netProfit k / totalRevenue k * 100 else 0)
         \<and> costPerKm k = (case distanceKm t of None \<Rightarrow> 0
                           | Some d \<Rightarrow> if 0 < d then totalExpenses k / d else 0)
         \<and> currency k = revenueCurrency t"
    by (cases "costs t"; cases "distanceKm t")
      (simp_all add: calculateKPIs_eq Let_def or_zero_def)
  show ?thesis
    using counts no_trips skipped kpi
    by (simp add: calculateTotalCosts_eq getFlaggedCostsCount_eq getUnresolvedFlagsCount_eq
        getAllFlaggedCosts_eq)
qed

theorem malformed_input_defaults_witness:
  "calculateTotalCosts JsNull = Inr 0
   \<and> getFlaggedCostsCount JsUndefined = Inr 0
   \<and> getUnresolvedFlagsCount (JsNonArray True) = Inr 0
   \<and> getAllFlaggedCosts JsNull = Inr []
   \<and> getAllFlaggedCosts (JsArray [trip_with ''active'' JsNull]) = Inr []
   \<and> calculateKPIs ((trip_with ''active'' JsNull)\<lparr>baseRevenue := None\<rparr>) = Inr zeroed_kpis"
proof -
  let ?t = "(trip_with ''active'' JsNull)\<lparr>baseRevenue := None\<rparr>"
  note inst = malformed_input_defaults [of JsNull JsNull "[trip_with ''active'' JsNull]" ?t
      JsUndefined JsNull]
  have a: "calculateTotalCosts JsNull = Inr 0"
    using inst by simp
  have b: "getAllFlaggedCosts JsNull = Inr []"
    using inst by simp
  have c: "getAllFlaggedCosts (JsArray [trip_with ''active'' JsNull]) = Inr []"
    using inst by (simp add: trip_with_def)
  have d: "getFlaggedCostsCount JsUndefined = Inr 0"
    "getUnresolvedFlagsCount (JsNonArray True) = Inr 0"
    by (simp_all add: getFlaggedCostsCount_eq getUnresolvedFlagsCount_eq)
  have e: "calculateKPIs ?t = Inr zeroed_kpis"
    by (simp add: calculateKPIs_eq Let_def trip_with_def or_zero_def additionalEntries_def
        zeroed_kpis_def)
  from a b c d e show ?thesis by simp
qed

text \<open>
  As the specification words it (a zeroed KPI record for every such input) the claim
  fails: for a trip whose costs are null and whose base revenue is 1000 the result of
  \<open>calculateKPIs\<close> is not the zeroed record, since only the cost total defaults to 0.
\<close>

theorem calculateKPIs_not_zeroed_counterexample:
  "calculateKPIs (trip_with ''active'' JsNull)
     = Inr \<lparr>totalRevenue = 1000, totalExpenses = 0, netProfit = 1000, profitMargin = 100,
             costPerKm = 0, currency = Some ''ZAR''\<rparr>
   \<and> calculateKPIs (trip_with ''active'' JsNull) \<noteq> Inr zeroed_kpis"
  by (simp add: calculateKPIs_eq Let_def trip_with_def or_zero_def additionalEntries_def
      zeroed_kpis_def)

section \<open>Properties of the probe verification\<close>

lemma calculateProbeDiscrepancy_eq:
  "entryProbeReading e \<noteq> [] \<Longrightarrow> entryLitresFilled e \<noteq> [] \<Longrightarrow>
   toNumber (entryProbeReading e) = Num r \<Longrightarrow> toNumber (entryLitresFilled e) = Num l \<Longrightarrow>
     calculateProbeDiscrepancy toNumber True e = Some (Num (l - r))
     \<and> hasLargeDiscrepancy (calculateProbeDiscrepancy toNumber True e) = (\<bar>l - r\<bar> > 50)"
  by (simp add: calculateProbeDiscrepancy_def hasLargeDiscrepancy_def)

lemma validateForm_eq:
  "validateForm parseFloat d f
     = (if formProbeReading f = [] then [(''probeReading'', ''Probe reading is required'')]
        else case parseFloat (formProbeReading f) of
          NaN \<Rightarrow> [(''probeReading'', ''Must be a valid positive number'')]
        | Num r \<Rightarrow>
            (if r < 0 then [(''probeReading'', ''Must be a valid positive number'')] else [])
            @ (if \<bar>litresFilled d - r\<bar> > 50 \<and> verificationNotes f = []
               then [(''verificationNotes'',
                      ''Verification notes are required for large discrepancies'')]
               else []))"
  by (cases "parseFloat (formProbeReading f)")
    (simp_all add: validateForm_def calculateDiscrepancy_def hasLargeDiscrepancy_def)

lemma validateEntryForm_valid:
  assumes "validateEntryForm toNumber True e = []"
    and "toNumber (entryProbeReading e) = Num r"
    and "toNumber (entryLitresFilled e) = Num l"
  shows "entryProbeReading e \<noteq> [] \<and> 0 \<le> r \<and> entryLitresFilled e \<noteq> [] \<and> 0 < l"
  using assms by (auto simp add: validateEntryForm_def errorIf_def split: if_splits)

lemma submitEntry_stores:
  assumes "validateEntryForm toNumber True e = []"
    and "toNumber (entryProbeReading e) = Num r"
    and "toNumber (entryLitresFilled e) = Num l"
    and "0 < r"
  shows "submitEntry toNumber True e
    = Some (\<lparr>recLitresFilled = Num l, recHasProbe = True, recProbeReading = Some (Num r),
              recProbeDiscrepancy = Some (Num (l - r)), recProbeVerified = True\<rparr>,
            if \<bar>l - r\<bar> > 50 then LargeDiscrepancyWarning (Num \<bar>l - r\<bar>)
            else WithinAcceptableRange (Num \<bar>l - r\<bar>))"
proof -
  from validateEntryForm_valid [OF assms(1-3)]
  have "entryProbeReading e \<noteq> []" "0 < l"
    by simp_all
  with assms show ?thesis
    by (simp add: submitEntry_def Let_def)
qed

text \<open>
  Claim C6, as amended. In the probe verification form, for a probe reading that is
  filled in and is a number, the discrepancy is \<open>litresFilled\<close> minus the probe
  reading, and the record is marked as having a large discrepancy exactly when its
  absolute value exceeds 50 litres. The verification is then not submitted while the
  verification notes are empty. A reading that is empty, not a number or negative is
  never submitted. A reading that is a non-negative number is submitted with notes
  when the discrepancy is large, and with or without notes when it is at most 50
  litres; the stored discrepancy is \<open>litresFilled\<close> minus the reading. The manual
  entry form computes the same difference and applies the same threshold of 50, but
  only to warn: its validation does not read the notes, and a valid entry with a
  positive probe reading is stored as verified whatever the discrepancy.
\<close>

theorem probe_discrepancy_threshold:
  "(formProbeReading f \<noteq> [] \<and> parseFloat (formProbeReading f) = Num r \<longrightarrow>
      calculateDiscrepancy parseFloat d f = Some (Num (litresFilled d - r))
      \<and> hasLargeDiscrepancy (calculateDiscrepancy parseFloat d f) = (\<bar>litresFilled d - r\<bar> > 50)
      \<and> (\<bar>litresFilled d - r\<bar> > 50 \<and> verificationNotes f = [] \<longrightarrow>
            handleSubmit parseFloat d f = None)
      \<and> (r < 0 \<longrightarrow> handleSubmit parseFloat d f = None)
      \<and> (0 \<le> r \<and> \<bar>litresFilled d - r\<bar> > 50 \<and> verificationNotes f \<noteq> [] \<longrightarrow>
            (\<exists>d'. handleSubmit parseFloat d f = Some d' \<and> probeVerified d'
               \<and> probeDiscrepancy d' = Some (Num (litresFilled d - r))
               \<and> probeVerificationNotes d' = verificationNotes f))
      \<and> (0 \<le> r \<and> \<bar>litresFilled d - r\<bar> \<le> 50 \<longrightarrow>
            (\<exists>d'. handleSubmit parseFloat d f = Some d' \<and> probeVerified d'
               \<and> probeDiscrepancy d' = Some (Num (litresFilled d - r)))))
   \<and> (formProbeReading f = [] \<or> parseFloat (formProbeReading f) = NaN \<longrightarrow>
         handleSubmit parseFloat d f = None)
   \<and> (entryProbeReading e \<noteq> [] \<and> entryLitresFilled e \<noteq> []
        \<and> toNumber (entryProbeReading e) = Num p \<and> toNumber (entryLitresFilled e) = Num l \<longrightarrow>
          calculateProbeDiscrepancy toNumber True e = Some (Num (l - p))
          \<and> hasLargeDiscrepancy (calculateProbeDiscrepancy toNumber True e) = (\<bar>l - p\<bar> > 50))
   \<and> validateEntryForm toNumber hasProbe (e\<lparr>entryNotes := ns\<rparr>)
        = validateEntryForm toNumber hasProbe e
   \<and> (validateEntryForm toNumber True e = [] \<and> toNumber (entryProbeReading e) = Num p
        \<and> toNumber (entryLitresFilled e) = Num l \<and> 0 < p \<longrightarrow>
          submitEntry toNumber True e
            = Some (\<lparr>recLitresFilled = Num l, recHasProbe = True,
                      recProbeReading = Some (Num p),
                      recProbeDiscrepancy = Some (Num (l - p)), recProbeVerified = True\<rparr>,
                    if \<bar>l - p\<bar> > 50 then LargeDiscrepancyWarning (Num \<bar>l - p\<bar>)
                    else WithinAcceptableRange (Num \<bar>l - p\<bar>)))"
proof -
  have verification: "formProbeReading f \<noteq> [] \<and> parseFloat (formProbeReading f) = Num r \<longrightarrow>
      calculateDiscrepancy parseFloat d f = Some (Num (litresFilled d - r))
      \<and> hasLargeDiscrepancy (calculateDiscrepancy parseFloat d f) = (\<bar>litresFilled d - r\<bar> > 50)
      \<and> (\<bar>litresFilled d - r\<bar> > 50 \<and> verificationNotes f = [] \<longrightarrow>
            handleSubmit parseFloat d f = None)
      \<and> (r < 0 \<longrightarrow> handleSubmit parseFloat d f = None)
      \<and> (0 \<le> r \<and> \<bar>litresFilled d - r\<bar> > 50 \<and> verificationNotes f \<noteq> [] \<longrightarrow>
            (\<exists>d'. handleSubmit parseFloat d f = Some d' \<and> probeVerified d'
               \<and> probeDiscrepancy d' = Some (Num (litresFilled d - r))
               \<and> probeVerificationNotes d' = verificationNotes f))
      \<and> (0 \<le> r \<and> \<bar>litresFilled d - r\<bar> \<le> 50 \<longrightarrow>
            (\<exists>d'. handleSubmit parseFloat d f = Some d' \<and> probeVerified d'
               \<and> probeDiscrepancy d' = Some (Num (litresFilled d - r))))"
  proof
    assume filled: "formProbeReading f \<noteq> [] \<and> parseFloat (formProbeReading f) = Num r"
    have disc: "calculateDiscrepancy parseFloat d f = Some (Num (litresFilled d - r))"
      using filled by (simp add: calculateDiscrepancy_def)
    have large: "hasLargeDiscrepancy (calculateDiscrepancy parseFloat d f)
        = (\<bar>litresFilled d - r\<bar> > 50)"
      by (simp add: disc hasLargeDiscrepancy_def)
    have valid: "validateForm parseFloat d f
        = (if r < 0 then [(''probeReading'', ''Must be a valid positive number'')] else [])
          @ (if \<bar>litresFilled d - r\<bar> > 50 \<and> verificationNotes f = []
             then [(''verificationNotes'',
                    ''Verification notes are required for large discrepancies'')]
             else [])"
      using filled by (simp add: validateForm_eq)
    have blocked: "\<bar>litresFilled d - r\<bar> > 50 \<and> verificationNotes f = [] \<longrightarrow>
        handleSubmit parseFloat d f = None"
      by (simp add: handleSubmit_def valid)
    have negative: "r < 0 \<longrightarrow> handleSubmit parseFloat d f = None"
      by (simp add: handleSubmit_def valid)
    have noted: "0 \<le> r \<and> \<bar>litresFilled d - r\<bar> > 50 \<and> verificationNotes f \<noteq> [] \<longrightarrow>
        (\<exists>d'. handleSubmit parseFloat d f = Some d' \<and> probeVerified d'
           \<and> probeDiscrepancy d' = Some (Num (litresFilled d - r))
           \<and> probeVerificationNotes d' = verificationNotes f)"
      using filled by (simp add: handleSubmit_def valid Let_def)
    have small: "0 \<le> r \<and> \<bar>litresFilled d - r\<bar> \<le> 50 \<longrightarrow>
        (\<exists>d'. handleSubmit parseFloat d f = Some d' \<and> probeVerified d'
           \<and> probeDiscrepancy d' = Some (Num (litresFilled d - r)))"
      using filled by (simp add: handleSubmit_def valid Let_def)
    from disc large blocked negative noted small
    show "calculateDiscrepancy parseFloat d f = Some (Num (litresFilled d - r))
      \<and> hasLargeDiscrepancy (calculateDiscrepancy parseFloat d f) = (\<bar>litresFilled d - r\<bar> > 50)
      \<and> (\<bar>litresFilled d - r\<bar> > 50 \<and> verificationNotes f = [] \<longrightarrow>
            handleSubmit parseFloat d f = None)
      \<and> (r < 0 \<longrightarrow> handleSubmit parseFloat d f = None)
      \<and> (0 \<le> r \<and> \<bar>litresFilled d - r\<bar> > 50 \<and> verificationNotes f \<noteq> [] \<longrightarrow>
            (\<exists>d'. handleSubmit parseFloat d f = Some d' \<and> probeVerified d'
               \<and> probeDiscrepancy d' = Some (Num (litresFilled d - r))
               \<and> probeVerificationNotes d' = verificationNotes f))
      \<and> (0 \<le> r \<and> \<bar>litresFilled d - r\<bar> \<le> 50 \<longrightarrow>
            (\<exists>d'. handleSubmit parseFloat d f = Some d' \<and> probeVerified d'
               \<and> probeDiscrepancy d' = Some (Num (litresFilled d - r))))"
      by blast
  qed
  have unusable: "formProbeReading f = [] \<or> parseFloat (formProbeReading f) = NaN \<longrightarrow>
      handleSubmit parseFloat d f = None"
    by (auto simp add: handleSubmit_def validateForm_eq)
  have preview: "entryProbeReading e \<noteq> [] \<and> entryLitresFilled e \<noteq> []
        \<and> toNumber (entryProbeReading e) = Num p \<and> toNumber (entryLitresFilled e) = Num l \<longrightarrow>
          calculateProbeDiscrepancy toNumber True e = Some (Num (l - p))
          \<and> hasLargeDiscrepancy (calculateProbeDiscrepancy toNumber True e) = (\<bar>l - p\<bar> > 50)"
    using calculateProbeDiscrepancy_eq [of e toNumber p l] by blast
  have unread: "validateEntryForm toNumber hasProbe (e\<lparr>entryNotes := ns\<rparr>)
      = validateEntryForm toNumber hasProbe e"
    by (simp add: validateEntryForm_def)
  have stored: "validateEntryForm toNumber True e = [] \<and> toNumber (entryProbeReading e) = Num p
        \<and> toNumber (entryLitresFilled e) = Num l \<and> 0 < p \<longrightarrow>
          submitEntry toNumber True e
            = Some (\<lparr>recLitresFilled = Num l, recHasProbe = True,
                      recProbeReading = Some (Num p),
                      recProbeDiscrepancy = Some (Num (l - p)), recProbeVerified = True\<rparr>,
                    if \<bar>l - p\<bar> > 50 then LargeDiscrepancyWarning (Num \<bar>l - p\<bar>)
                    else WithinAcceptableRange (Num \<bar>l - p\<bar>))"
    using submitEntry_stores [of toNumber e p l] by blast
  from verification unusable preview unread stored show ?thesis
    by blast
qed

theorem probe_discrepancy_threshold_witness:
  "calculateDiscrepancy parse_sample fill_450 (reading_380 []) = Some (Num 70)
   \<and> hasLargeDiscrepancy (calculateDiscrepancy parse_sample fill_450 (reading_380 [])) = True
   \<and> handleSubmit parse_sample fill_450 (reading_380 []) = None
   \<and> handleSubmit parse_sample fill_450 (reading_380 ''seal checked'')
       = Some (fill_450\<lparr>probeReading := Some (Num 380), probeDiscrepancy := Some (Num 70),
                 probeVerified := True, probeVerificationNotes := ''seal checked'',
                 probeVerifiedBy := ''Current User''\<rparr>)
   \<and> handleSubmit parse_sample (fill_450\<lparr>litresFilled := 420\<rparr>) (reading_380 [])
       = Some (fill_450\<lparr>litresFilled := 420, probeReading := Some (Num 380),
                 probeDiscrepancy := Some (Num 40), probeVerified := True,
                 probeVerifiedBy := ''Current User''\<rparr>)
   \<and> calculateProbeDiscrepancy parse_sample True entry_450_380 = Some (Num 70)
   \<and> validateEntryForm parse_sample True entry_450_380 = []
   \<and> submitEntry parse_sample True entry_450_380
       = Some (\<lparr>recLitresFilled = Num 450, recHasProbe = True,
                 recProbeReading = Some (Num 380), recProbeDiscrepancy = Some (Num 70),
                 recProbeVerified = True\<rparr>,
               LargeDiscrepancyWarning (Num 70))"
proof -
  note inst = probe_discrepancy_threshold [where f = "reading_380 []"
      and parseFloat = parse_sample and r = 380 and d = fill_450
      and e = entry_450_380 and toNumber = parse_sample and l = 450 and p = 380
      and hasProbe = True and ns = "[]"]
  have filled: "formProbeReading (reading_380 []) \<noteq> []
      \<and> parse_sample (formProbeReading (reading_380 [])) = Num 380"
    by (simp add: reading_380_def parse_sample_def)
  have lit: "litresFilled fill_450 = 450"
    by (simp add: fill_450_def)
  have empty: "verificationNotes (reading_380 []) = []"
    by (simp add: reading_380_def)
  have entry: "entryProbeReading entry_450_380 \<noteq> [] \<and> entryLitresFilled entry_450_380 \<noteq> []
      \<and> parse_sample (entryProbeReading entry_450_380) = Num 380
      \<and> parse_sample (entryLitresFilled entry_450_380) = Num 450"
    by (simp add: entry_450_380_def parse_sample_def)
  have valid: "validateEntryForm parse_sample True entry_450_380 = []"
    by (simp add: validateEntryForm_def errorIf_def entry_450_380_def parse_sample_def)
  have a: "calculateDiscrepancy parse_sample fill_450 (reading_380 []) = Some (Num 70)"
    using inst filled by (simp add: lit)
  have b: "hasLargeDiscrepancy (calculateDiscrepancy parse_sample fill_450 (reading_380 []))
      = True"
    using inst filled by (auto simp add: lit)
  have c: "handleSubmit parse_sample fill_450 (reading_380 []) = None"
    using inst filled by (simp add: lit empty)
  have d: "calculateProbeDiscrepancy parse_sample True entry_450_380 = Some (Num 70)"
    using inst entry by simp
  have s: "submitEntry parse_sample True entry_450_380
       = Some (\<lparr>recLitresFilled = Num 450, recHasProbe = True,
                 recProbeReading = Some (Num 380), recProbeDiscrepancy = Some (Num 70),
                 recProbeVerified = True\<rparr>,
               LargeDiscrepancyWarning (Num 70))"
    using inst entry valid by simp
  have e: "handleSubmit parse_sample fill_450 (reading_380 ''seal checked'')
       = Some (fill_450\<lparr>probeReading := Some (Num 380), probeDiscrepancy := Some (Num 70),
                 probeVerified := True, probeVerificationNotes := ''seal checked'',
                 probeVerifiedBy := ''Current User''\<rparr>)"
    by (simp add: handleSubmit_def validateForm_def calculateDiscrepancy_def
        hasLargeDiscrepancy_def reading_380_def parse_sample_def fill_450_def Let_def)
  have f: "handleSubmit parse_sample (fill_450\<lparr>litresFilled := 420\<rparr>) (reading_380 [])
       = Some (fill_450\<lparr>litresFilled := 420, probeReading := Some (Num 380),
                 probeDiscrepancy := Some (Num 40), probeVerified := True,
                 probeVerifiedBy := ''Current User''\<rparr>)"
    by (simp add: handleSubmit_def validateForm_def calculateDiscrepancy_def
        hasLargeDiscrepancy_def reading_380_def parse_sample_def fill_450_def Let_def)
  from a b c d e f s valid show ?thesis by simp
qed

text \<open>
  As the specification words it the claim fails in two places. A verification of 30
  litres with a probe reading of -10 has a discrepancy of 40, which is not large, and
  is still not submitted without notes (nor with them): the reading is refused. And
  the manual entry of 450 litres with a probe reading of 380 is stored as verified
  with a discrepancy of 70 although its notes are empty.
\<close>

theorem probe_verification_counterexample:
  "calculateDiscrepancy parse_sample fill_30 reading_minus_10 = Some (Num 40)
   \<and> hasLargeDiscrepancy (calculateDiscrepancy parse_sample fill_30 reading_minus_10) = False
   \<and> handleSubmit parse_sample fill_30 reading_minus_10 = None
   \<and> entryNotes entry_450_380 = []
   \<and> submitEntry parse_sample True entry_450_380
       = Some (\<lparr>recLitresFilled = Num 450, recHasProbe = True,
                 recProbeReading = Some (Num 380), recProbeDiscrepancy = Some (Num 70),
                 recProbeVerified = True\<rparr>,
               LargeDiscrepancyWarning (Num 70))"
  by (simp add: calculateDiscrepancy_def hasLargeDiscrepancy_def handleSubmit_def
      validateForm_def submitEntry_def validateEntryForm_def errorIf_def Let_def
      fill_30_def reading_minus_10_def entry_450_380_def parse_sample_def)

section \<open>Properties of the diesel efficiency evaluation\<close>

text \<open>
  Claim C7. For a diesel record with a known actual km per litre and a configured
  fleet norm (a positive expected km per litre and a tolerance that is not negative),
  the efficiency variance is (actual - expected) / expected * 100; the performance
  status is \<open>poor\<close> when the variance is below minus the tolerance, \<open>excellent\<close> when
  it is above the tolerance and \<open>normal\<close> otherwise; and a debrief is required
  whenever the status is \<open>poor\<close> or the absolute variance exceeds the tolerance.
\<close>

theorem evaluateEfficiency_classification:
  assumes "0 < expectedKmPerLitre n" and "0 \<le> tolerancePercentage n"
  shows "efficiencyVariance (evaluateEfficiency n a)
           = (a - expectedKmPerLitre n) / expectedKmPerLitre n * 100
    \<and> performanceStatus (evaluateEfficiency n a)
        = (if efficiencyVariance (evaluateEfficiency n a) < - tolerancePercentage n then Poor
           else if efficiencyVariance (evaluateEfficiency n a) > tolerancePercentage n
           then Excellent else Normal)
    \<and> (efficiencyVariance (evaluateEfficiency n a) > tolerancePercentage n
         \<longrightarrow> performanceStatus (evaluateEfficiency n a) = Excellent)
    \<and> (performanceStatus (evaluateEfficiency n a) = Poor
         \<or> \<bar>efficiencyVariance (evaluateEfficiency n a)\<bar> > tolerancePercentage n
         \<longrightarrow> requiresDebrief (evaluateEfficiency n a))
    \<and> (requiresDebrief (evaluateEfficiency n a)
         \<longleftrightarrow> performanceStatus (evaluateEfficiency n a) \<noteq> Normal)"
proof -
  define v where "v = (a - expectedKmPerLitre n) / expectedKmPerLitre n * 100"
  have fields:
    "efficiencyVariance (evaluateEfficiency n a) = v"
    "performanceStatus (evaluateEfficiency n a)
       = (if v < - tolerancePercentage n then Poor
          else if v > tolerancePercentage n then Excellent else Normal)"
    "requiresDebrief (evaluateEfficiency n a)
       = ((if v < - tolerancePercentage n then Poor
           else if v > tolerancePercentage n then Excellent else Normal) = Poor
          \<or> \<bar>v\<bar> > tolerancePercentage n)"
    by (simp_all add: evaluateEfficiency_def Let_def v_def)
  have formula: "efficiencyVariance (evaluateEfficiency n a)
      = (a - expectedKmPerLitre n) / expectedKmPerLitre n * 100"
    by (simp add: fields v_def)
  have rest: "performanceStatus (evaluateEfficiency n a)
        = (if efficiencyVariance (evaluateEfficiency n a) < - tolerancePercentage n then Poor
           else if efficiencyVariance (evaluateEfficiency n a) > tolerancePercentage n
           then Excellent else Normal)
    \<and> (efficiencyVariance (evaluateEfficiency n a) > tolerancePercentage n
         \<longrightarrow> performanceStatus (evaluateEfficiency n a) = Excellent)
    \<and> (performanceStatus (evaluateEfficiency n a) = Poor
         \<or> \<bar>efficiencyVariance (evaluateEfficiency n a)\<bar> > tolerancePercentage n
         \<longrightarrow> requiresDebrief (evaluateEfficiency n a))
    \<and> (requiresDebrief (evaluateEfficiency n a)
         \<longleftrightarrow> performanceStatus (evaluateEfficiency n a) \<noteq> Normal)"
    unfolding fields using assms(2) by auto
  from formula rest show ?thesis
    by blast
qed

theorem evaluateEfficiency_classification_witness:
  "efficiencyVariance (evaluateEfficiency norm_3_10 (26 / 10)) = - 40 / 3
   \<and> \<bar>efficiencyVariance (evaluateEfficiency norm_3_10 (26 / 10)) - (- 1333 / 100)\<bar> < 5 / 1000
   \<and> performanceStatus (evaluateEfficiency norm_3_10 (26 / 10)) = Poor
   \<and> requiresDebrief (evaluateEfficiency norm_3_10 (26 / 10)) = True"
proof -
  have pos: "0 < expectedKmPerLitre norm_3_10" and tol: "0 \<le> tolerancePercentage norm_3_10"
    by (simp_all add: norm_3_10_def)
  from evaluateEfficiency_classification [OF pos tol, of "26 / 10"]
  show ?thesis
    by (simp add: norm_3_10_def)
qed

section \<open>Properties of the week bucketing\<close>

lemma Day_setDate: "Day (setDate t dt) = monthStart t + dt - 1"
proof -
  have "0 \<le> t mod msPerDay" "t mod msPerDay < msPerDay"
    by (simp_all add: msPerDay_def)
  then show ?thesis
    by (simp add: setDate_def Day_def TimeWithinDay_def msPerDay_def)
qed

lemma Day_weekMonday: "Day (weekMonday t) = Day t - getDay t + 1"
  by (simp add: weekMonday_def Day_setDate getDate_def)

lemma getDay_range: "0 \<le> getDay t \<and> getDay t \<le> 6"
  by (simp add: getDay_def)

lemma getDay_weekMonday: "getDay (weekMonday t) = 1"
proof -
  have "(Day t - (Day t + 4) mod 7 + 1 + 4) mod 7 = 1"
    by presburger
  then show ?thesis
    by (simp add: getDay_def [of "weekMonday t"] Day_weekMonday) (simp add: getDay_def)
qed

text \<open>
  The Monday the code computes is the Monday of the date's Monday-to-Sunday week,
  except on a Sunday, where it is the Monday after.
\<close>

lemma weekMonday_vs_specified:
  "Day (weekMonday t)
     = (if getDay t = 0 then mondayOfWeek_as_specified t + 7 else mondayOfWeek_as_specified t)"
proof -
  have "0 \<le> getDay t" "getDay t \<le> 6"
    using getDay_range [of t] by auto
  then have "(getDay t + 6) mod 7 = (if getDay t = 0 then 6 else getDay t - 1)"
    by presburger
  then show ?thesis
    by (simp add: Day_weekMonday mondayOfWeek_as_specified_def)
qed

text \<open>
  The week number of a Monday does not depend on its time of day: the argument of
  \<^verbatim>\<open>Math.ceil\<close> is a whole number of weeks plus a fraction between 2/7 and 3/7.
\<close>

lemma getWeekNumber_of_monday:
  assumes "getDay m = 1"
  shows "getWeekNumber m
    = (Day m - Day (newDate (getFullYear m) 0 1) + getDay (newDate (getFullYear m) 0 1) + 1)
        div 7 + 1"
proof -
  define first where "first = newDate (getFullYear m) 0 1"
  define F where "F = Day first"
  have first_eq: "first = F * msPerDay"
    by (simp add: F_def first_def newDate_def Day_def msPerDay_def)
  define r where "r = TimeWithinDay m"
  have r: "0 \<le> r" "r < msPerDay"
    by (simp_all add: r_def TimeWithinDay_def msPerDay_def)
  have m_eq: "m = Day m * msPerDay + r"
    by (simp add: r_def Day_def TimeWithinDay_def)
  define n where "n = Day m - F + getDay first + 1"
  have "(Day m + 4) mod 7 = 1"
    using assms by (simp add: getDay_def)
  moreover have "getDay first = (F + 4) mod 7"
    by (simp add: getDay_def F_def)
  ultimately have n_mod: "n mod 7 = 2"
    unfolding n_def by presburger
  define k where "k = n div 7"
  have n_eq: "n = 7 * k + 2"
    using n_mod unfolding k_def by presburger
  have past: "real_of_int (m - first) / 86400000
      = real_of_int (Day m - F) + real_of_int r / 86400000"
  proof -
    have "m - first = (Day m - F) * 86400000 + r"
      using m_eq first_eq by (simp add: msPerDay_def algebra_simps)
    then have "real_of_int (m - first) = real_of_int ((Day m - F) * 86400000 + r)"
      by (simp only:)
    then have e: "real_of_int (m - first) = real_of_int (Day m - F) * 86400000 + real_of_int r"
      by (simp only: of_int_add of_int_mult of_int_numeral)
    show ?thesis
      unfolding e by (simp add: add_divide_distrib)
  qed
  have arg: "(real_of_int (m - first) / 86400000 + real_of_int (getDay first) + 1) / 7
      = real_of_int k + (2 + real_of_int r / 86400000) / 7"
  proof -
    have "real_of_int (m - first) / 86400000 + real_of_int (getDay first) + 1
        = real_of_int n + real_of_int r / 86400000"
      unfolding past by (simp add: n_def)
    then show ?thesis
      by (simp add: n_eq field_simps)
  qed
  have frac: "0 < (2 + real_of_int r / 86400000) / 7" "(2 + real_of_int r / 86400000) / 7 \<le> 1"
    using r by (simp_all add: msPerDay_def add_pos_nonneg)
  have ceil: "\<lceil>real_of_int k + (2 + real_of_int r / 86400000) / 7\<rceil> = k + 1"
    using frac by (simp add: ceiling_eq_iff)
  have "getWeekNumber m
      = \<lceil>(real_of_int (m - first) / 86400000 + real_of_int (getDay first) + 1) / 7\<rceil>"
    by (simp only: getWeekNumber_def Let_def first_def)
  also have "\<dots> = k + 1"
    by (simp only: arg ceil)
  finally show ?thesis
    by (simp only: k_def n_def F_def first_def)
qed

lemma tripWeekKey_eq: "tripWeekKey a = keyOfMonday (Day (weekMonday (offloadDate a)))"
  by (simp add: tripWeekKey_def keyOfMonday_def Let_def getFullYear_def
      getWeekNumber_of_monday [OF getDay_weekMonday])

lemma keyOfMonday_next_week: "keyOfMonday (dayNumber + 7) \<noteq> keyOfMonday dayNumber"
proof
  assume same: "keyOfMonday (dayNumber + 7) = keyOfMonday dayNumber"
  then have y: "fst (civil_from_days (dayNumber + 7)) = fst (civil_from_days dayNumber)"
    by (simp add: keyOfMonday_def Let_def)
  define c where "c = getDay (newDate (fst (civil_from_days dayNumber)) 0 1) + 1
      - Day (newDate (fst (civil_from_days dayNumber)) 0 1)"
  from same have "(dayNumber + 7 + c) div 7 = (dayNumber + c) div 7"
    by (simp add: keyOfMonday_def Let_def y c_def algebra_simps)
  then show False
    by presburger
qed

text \<open>Trips of Monday to Saturday of one week share their key, and so do its Sundays.\<close>

lemma tripWeekKey_same_code_week:
  assumes "mondayOfWeek_as_specified (offloadDate a) = mondayOfWeek_as_specified (offloadDate b)"
    and "(getDay (offloadDate a) = 0) = (getDay (offloadDate b) = 0)"
  shows "tripWeekKey a = tripWeekKey b"
  using assms by (simp add: tripWeekKey_eq weekMonday_vs_specified)

text \<open>
  Claim C3 says that two completed trips whose trigger dates are different days of one
  Monday-to-Sunday week get the same week key. The code computes the Monday as
  \<^verbatim>\<open>date.getDate() - date.getDay() + 1\<close>, and \<^verbatim>\<open>getDay()\<close> is 0 on a Sunday, so
  a Sunday is filed under the Monday that follows it: whenever one of the two trigger
  dates is the Sunday of the week and the other is not, the two keys differ.
\<close>

theorem sunday_trip_gets_other_week_key:
  assumes "mondayOfWeek_as_specified (offloadDate a) = mondayOfWeek_as_specified (offloadDate b)"
    and "getDay (offloadDate a) \<noteq> 0"
    and "getDay (offloadDate b) = 0"
  shows "tripWeekKey a \<noteq> tripWeekKey b"
  using assms keyOfMonday_next_week [of "mondayOfWeek_as_specified (offloadDate b)"]
  by (simp add: tripWeekKey_eq weekMonday_vs_specified)

text \<open>
  The trips of Saturday 2025-01-11 and Sunday 2025-01-12 belong to the week of Monday
  2025-01-06 (day 20094); they get the keys 2025-W2 and 2025-W3.
\<close>

theorem sunday_trip_gets_other_week_key_witness:
  "isCompletedTrip trip_saturday \<and> isCompletedTrip trip_sunday
   \<and> civil_from_days (Day (offloadDate trip_saturday)) = (2025, 1, 11)
   \<and> civil_from_days (Day (offloadDate trip_sunday)) = (2025, 1, 12)
   \<and> getDate (offloadDate trip_saturday) = 11 \<and> getDate (offloadDate trip_sunday) = 12
   \<and> getDay (offloadDate trip_saturday) = 6 \<and> getDay (offloadDate trip_sunday) = 0
   \<and> mondayOfWeek_as_specified (offloadDate trip_saturday) = 20094
   \<and> mondayOfWeek_as_specified (offloadDate trip_sunday) = 20094
   \<and> civil_from_days 20094 = (2025, 1, 6)
   \<and> tripWeekKey trip_saturday = (2025, 2)
   \<and> tripWeekKey trip_sunday = (2025, 3)
   \<and> tripWeekKey trip_saturday \<noteq> tripWeekKey trip_sunday"
proof -
  have same: "mondayOfWeek_as_specified (offloadDate trip_saturday)
      = mondayOfWeek_as_specified (offloadDate trip_sunday)"
    by code_simp
  have sat: "getDay (offloadDate trip_saturday) \<noteq> 0"
    by code_simp
  have sun: "getDay (offloadDate trip_sunday) = 0"
    by code_simp
  have differ: "tripWeekKey trip_saturday \<noteq> tripWeekKey trip_sunday"
    using sunday_trip_gets_other_week_key [OF same sat sun] .
  have evaluated: "isCompletedTrip trip_saturday \<and> isCompletedTrip trip_sunday
   \<and> civil_from_days (Day (offloadDate trip_saturday)) = (2025, 1, 11)
   \<and> civil_from_days (Day (offloadDate trip_sunday)) = (2025, 1, 12)
   \<and> getDate (offloadDate trip_saturday) = 11 \<and> getDate (offloadDate trip_sunday) = 12
   \<and> getDay (offloadDate trip_saturday) = 6 \<and> getDay (offloadDate trip_sunday) = 0
   \<and> mondayOfWeek_as_specified (offloadDate trip_saturday) = 20094
   \<and> mondayOfWeek_as_specified (offloadDate trip_sunday) = 20094
   \<and> civil_from_days 20094 = (2025, 1, 6)
   \<and> tripWeekKey trip_saturday = (2025, 2)
   \<and> tripWeekKey trip_sunday = (2025, 3)"
    by code_simp
  from evaluated differ show ?thesis
    by blast
qed

end
